theory Spec2Isabelle
  imports Main "HOL-Library.Word"
begin

unbundle bit_operations_syntax

section \<open>The SQL backend of GnuCash: gnc-backend-sql.cpp\<close>

text \<open>
  The theory embeds the parts of \<^verbatim>\<open>src/backend/sql/gnc-backend-sql.cpp\<close> that map
  objects to rows and back, build statements, keep the table versions and drive load and
  commit. Conventions of the embedding:
  \<^item> A pointer argument that a function refuses when it is NULL
    (\<^verbatim>\<open>g_return_if_fail (be != NULL)\<close> at its entry) and dereferences otherwise is
    passed as the value it points to; the updated value is returned. Pointers that are
    NULL in normal operation (accessors, callbacks, row values, statements handed back by
    the connection, \<^verbatim>\<open>be->book\<close>) are options.
  \<^item> A crash of the C++ program (a failed \<^verbatim>\<open>g_assert\<close>, a NULL or end-iterator
    dereference, a read past the end of a string) is an \<open>Inl\<close> result.
  \<^item> The connection, the engine and GLib are collaborators whose sources are not part
    of the files at hand. The connection is a record of answer functions together with
    the list of calls made through it so far; every answer may depend on that history.
\<close>

subsection \<open>Rendering integers as text\<close>

definition digit_char :: "nat \<Rightarrow> char" where
  "digit_char d = ''0123456789'' ! d"

fun show_nat :: "nat \<Rightarrow> string" where
  "show_nat n = (if n < 10 then [digit_char n] else show_nat (n div 10) @ [digit_char (n mod 10)])"

declare show_nat.simps [simp del]

text \<open>The text that \<^verbatim>\<open>%d\<close> and \<^verbatim>\<open>operator<<\<close> produce for a signed integer.\<close>

definition show_int :: "int \<Rightarrow> string" where
  "show_int i = (if i < 0 then CHR ''-'' # show_nat (nat (- i)) else show_nat (nat i))"

subsection \<open>Crashes\<close>

datatype sql_error =
    Assertion_failed
  | Null_dereference
  | Deref_end_iterator
  | Erase_out_of_range
  | Read_past_end
  | Type_confusion

subsection \<open>Statements and the connection\<close>

type_synonym PairVec = "(string \<times> string) list"

text \<open>
  Modelled from the spec: a statement is the opaque handle of section 4.3; its text is
  the SQL it was created from, and \<^verbatim>\<open>addWhereCond\<close> attaches one list of
  column/value pairs per call.
\<close>

record GncSqlStatement =
  stmt_sql :: string
  stmt_where :: "PairVec list"

definition gnc_sql_statement_add_where_cond ::
  "GncSqlStatement \<Rightarrow> PairVec \<Rightarrow> GncSqlStatement" where
  "gnc_sql_statement_add_where_cond stmt col_val_pair =
     stmt\<lparr>stmt_where := stmt_where stmt @ [col_val_pair]\<rparr>"

datatype conn_call =
    Call_executeNonSelectStatement GncSqlStatement
  | Call_createStatementFromSql string
  | Call_beginTransaction
  | Call_rollbackTransaction
  | Call_commitTransaction

text \<open>
  \<^verbatim>\<open>struct GncSqlConnection\<close>: the function pointers used by the code below. The field
  \<open>calls\<close> lists the calls already made, oldest first; an answer function receives it.
\<close>

record GncSqlConnection =
  calls :: "conn_call list"
  executeNonSelectStatement :: "conn_call list \<Rightarrow> GncSqlStatement \<Rightarrow> int"
  createStatementFromSql :: "conn_call list \<Rightarrow> string \<Rightarrow> bool"
  beginTransaction :: "conn_call list \<Rightarrow> bool"
  rollbackTransaction :: "conn_call list \<Rightarrow> bool"
  commitTransaction :: "conn_call list \<Rightarrow> bool"
  quoteString :: "string \<Rightarrow> string"

definition gnc_sql_connection_execute_nonselect_statement ::
  "GncSqlConnection \<Rightarrow> GncSqlStatement \<Rightarrow> int \<times> GncSqlConnection" where
  "gnc_sql_connection_execute_nonselect_statement c stmt =
     (executeNonSelectStatement c (calls c) stmt,
      c\<lparr>calls := calls c @ [Call_executeNonSelectStatement stmt]\<rparr>)"

definition gnc_sql_connection_create_statement_from_sql ::
  "GncSqlConnection \<Rightarrow> string \<Rightarrow> GncSqlStatement option \<times> GncSqlConnection" where
  "gnc_sql_connection_create_statement_from_sql c sql =
     (if createStatementFromSql c (calls c) sql
      then Some \<lparr>stmt_sql = sql, stmt_where = []\<rparr> else None,
      c\<lparr>calls := calls c @ [Call_createStatementFromSql sql]\<rparr>)"

definition gnc_sql_connection_begin_transaction ::
  "GncSqlConnection \<Rightarrow> bool \<times> GncSqlConnection" where
  "gnc_sql_connection_begin_transaction c =
     (beginTransaction c (calls c), c\<lparr>calls := calls c @ [Call_beginTransaction]\<rparr>)"

definition gnc_sql_connection_rollback_transaction ::
  "GncSqlConnection \<Rightarrow> bool \<times> GncSqlConnection" where
  "gnc_sql_connection_rollback_transaction c =
     (rollbackTransaction c (calls c), c\<lparr>calls := calls c @ [Call_rollbackTransaction]\<rparr>)"

definition gnc_sql_connection_commit_transaction ::
  "GncSqlConnection \<Rightarrow> bool \<times> GncSqlConnection" where
  "gnc_sql_connection_commit_transaction c =
     (commitTransaction c (calls c), c\<lparr>calls := calls c @ [Call_commitTransaction]\<rparr>)"

definition gnc_sql_connection_quote_string :: "GncSqlConnection \<Rightarrow> string \<Rightarrow> string" where
  "gnc_sql_connection_quote_string c s = quoteString c s"

subsection \<open>The backend structure\<close>

datatype QofBackendError = ERR_BACKEND_NO_ERR | ERR_BACKEND_SERVER_ERR | ERR_BACKEND_READONLY

text \<open>
  Modelled from the spec: the book of the engine, of which the backend reads the
  read-only mark and clears the dirty mark ("success marks the in-memory book clean").
\<close>

record QofBook =
  read_only :: bool
  session_dirty :: bool

type_synonym gnc_commodity = nat

text \<open>
  \<^verbatim>\<open>struct GncSqlBackend\<close>. \<open>last_err\<close> and \<open>percentage\<close> are the two members of the
  embedded \<^verbatim>\<open>QofBackend be\<close> that the code touches (\<open>percentage\<close> tells whether a
  progress callback is installed). \<open>versions\<close> is the hash table behind
  \<^verbatim>\<open>be->versions\<close>. \<open>post_load_commodities\<close> is the file-level list of that name,
  newest first; its only writer takes the backend as its first argument, and it is
  kept here so that the callbacks of an object backend, which receive the backend, can
  reach it.
\<close>

record GncSqlBackend =
  last_err :: QofBackendError
  percentage :: bool
  conn :: GncSqlConnection
  book :: "QofBook option"
  loading :: bool
  in_query :: bool
  is_pristine_db :: bool
  obj_total :: int
  operations_done :: int
  versions :: "string \<rightharpoonup> int"
  timespec_format :: string
  post_load_commodities :: "gnc_commodity list"

text \<open>
  Modelled from the spec: \<^verbatim>\<open>qof_backend_set_error\<close> of the engine records an error
  "on a backend-wide error slot".
\<close>

definition qof_backend_set_error :: "GncSqlBackend \<Rightarrow> QofBackendError \<Rightarrow> GncSqlBackend" where
  "qof_backend_set_error b err = b\<lparr>last_err := err\<rparr>"

subsection \<open>Running SQL text\<close>

definition gnc_sql_create_statement_from_sql ::
  "GncSqlBackend \<Rightarrow> string \<Rightarrow> GncSqlStatement option \<times> GncSqlBackend" where
  "gnc_sql_create_statement_from_sql b sql =
     (let (stmt, c) = gnc_sql_connection_create_statement_from_sql (conn b) sql;
          b1 = b\<lparr>conn := c\<rparr>
      in case stmt of
           None \<Rightarrow> (None, qof_backend_set_error b1 ERR_BACKEND_SERVER_ERR)
         | Some s \<Rightarrow> (Some s, b1))"

definition gnc_sql_execute_nonselect_sql :: "GncSqlBackend \<Rightarrow> string \<Rightarrow> int \<times> GncSqlBackend" where
  "gnc_sql_execute_nonselect_sql b sql =
     (let (stmt, b1) = gnc_sql_create_statement_from_sql b sql
      in case stmt of
           None \<Rightarrow> (- 1, b1)
         | Some s \<Rightarrow>
             (let (result, c) = gnc_sql_connection_execute_nonselect_statement (conn b1) s
              in (result, b1\<lparr>conn := c\<rparr>)))"

subsection \<open>The version table\<close>

definition VERSION_TABLE_NAME :: string where "VERSION_TABLE_NAME = ''versions''"
definition TABLE_COL_NAME :: string where "TABLE_COL_NAME = ''table_name''"
definition VERSION_COL_NAME :: string where "VERSION_COL_NAME = ''table_version''"

text \<open>
  \<^verbatim>\<open>GPOINTER_TO_INT (g_hash_table_lookup (be->versions, table_name))\<close>: a table that the
  hash table does not hold reads as 0.
\<close>

definition gnc_sql_get_table_version :: "GncSqlBackend \<Rightarrow> string \<Rightarrow> int" where
  "gnc_sql_get_table_version b table_name =
     (if is_pristine_db b then 0
      else case versions b table_name of None \<Rightarrow> 0 | Some v \<Rightarrow> v)"

text \<open>\<^verbatim>\<open>g_strdup_printf ("INSERT INTO %s VALUES('%s',%d)", VERSION_TABLE_NAME, table_name, version)\<close>\<close>

definition insert_version_sql :: "string \<Rightarrow> int \<Rightarrow> string" where
  "insert_version_sql table_name version =
     ''INSERT INTO '' @ VERSION_TABLE_NAME @ '' VALUES('' @ [CHR 0x27] @ table_name @ [CHR 0x27]
       @ '','' @ show_int version @ '')''"

text \<open>\<^verbatim>\<open>g_strdup_printf ("UPDATE %s SET %s=%d WHERE %s='%s'", VERSION_TABLE_NAME, VERSION_COL_NAME, version, TABLE_COL_NAME, table_name)\<close>\<close>

definition update_version_sql :: "string \<Rightarrow> int \<Rightarrow> string" where
  "update_version_sql table_name version =
     ''UPDATE '' @ VERSION_TABLE_NAME @ '' SET '' @ VERSION_COL_NAME @ ''='' @ show_int version
       @ '' WHERE '' @ TABLE_COL_NAME @ ''='' @ [CHR 0x27] @ table_name @ [CHR 0x27]"

text \<open>The statement that a change of version sends: an INSERT for a table read as absent.\<close>

definition version_sql :: "GncSqlBackend \<Rightarrow> string \<Rightarrow> int \<Rightarrow> string" where
  "version_sql b table_name version =
     (if gnc_sql_get_table_version b table_name = 0 then insert_version_sql table_name version
      else update_version_sql table_name version)"

definition gnc_sql_set_table_version ::
  "GncSqlBackend \<Rightarrow> string \<Rightarrow> int \<Rightarrow> bool \<times> GncSqlBackend" where
  "gnc_sql_set_table_version b table_name version =
     (if \<not> 0 < version then (False, b)
      else
        let cur_version = gnc_sql_get_table_version b table_name;
            b1 = (if cur_version \<noteq> version then
                    let sql = (if cur_version = 0 then insert_version_sql table_name version
                               else update_version_sql table_name version);
                        (status, b2) = gnc_sql_execute_nonselect_sql b sql
                    in if status = - 1 then qof_backend_set_error b2 ERR_BACKEND_SERVER_ERR
                       else b2
                  else b)
        in (True, b1\<lparr>versions := (versions b1)(table_name \<mapsto> version)\<rparr>))"

subsection \<open>Rows, values and objects\<close>

text \<open>
  The value of one column of a result row, as a \<^verbatim>\<open>GValue\<close>: its type tag and payload.
  \<^verbatim>\<open>long\<close> has 64 bits (LP64). \<open>GOther\<close> stands for every type that the
  functions below do not look into.
\<close>

datatype GValue =
    GInt "32 word"
  | GUInt "32 word"
  | GLong "64 word"
  | GULong "64 word"
  | GInt64 "64 word"
  | GUInt64 "64 word"
  | GString "string option"
  | GOther

type_synonym GncSqlRow = "string \<rightharpoonup> GValue"

text \<open>
  Modelled from the spec: \<^verbatim>\<open>gnc_sql_row_get_value_at_col_name\<close> is used but not
  declared in the files at hand. A row gives the value of a column by name; NULL
  (here \<open>None\<close>) stands for a column that is absent or null.
\<close>

definition gnc_sql_row_get_value_at_col_name :: "GncSqlRow \<Rightarrow> string \<Rightarrow> GValue option" where
  "gnc_sql_row_get_value_at_col_name row col = row col"

record gnc_numeric =
  num :: "64 word"
  denom :: "64 word"

record Timespec =
  tv_sec :: "64 word"
  tv_nsec :: "64 word"

record GDate =
  day :: "8 word"
  month :: "32 word"
  year :: "16 word"

text \<open>What a getter hands out and a setter takes: a typed value behind a \<^verbatim>\<open>gpointer\<close>.\<close>

datatype PropValue =
    P_Null
  | P_Numeric gnc_numeric
  | P_Timespec Timespec
  | P_GDate GDate

text \<open>
  Modelled from the spec: the domain object is reached "only through getter/setter
  function pointers or named-property accessors". The object carries its named
  properties, and, when it is a \<^verbatim>\<open>QofInstance\<close>, an edit level.
\<close>

record GObject =
  is_qof_instance :: bool
  editlevel :: int
  properties :: "string \<rightharpoonup> PropValue"

type_synonym QofSetterFunc = "GObject \<Rightarrow> PropValue \<Rightarrow> GObject"
type_synonym QofAccessFunc = "GObject \<Rightarrow> PropValue"

text \<open>
  Modelled from the spec: the accessors of the object layer that the handlers call. A
  named property is set and read by its name; the edit level of an instance goes up and
  down by one.
\<close>

definition QOF_IS_INSTANCE :: "GObject \<Rightarrow> bool" where
  "QOF_IS_INSTANCE obj = is_qof_instance obj"

definition qof_instance_increase_editlevel :: "GObject \<Rightarrow> GObject" where
  "qof_instance_increase_editlevel obj = obj\<lparr>editlevel := editlevel obj + 1\<rparr>"

definition qof_instance_decrease_editlevel :: "GObject \<Rightarrow> GObject" where
  "qof_instance_decrease_editlevel obj = obj\<lparr>editlevel := editlevel obj - 1\<rparr>"

definition g_object_set :: "GObject \<Rightarrow> string \<Rightarrow> PropValue \<Rightarrow> GObject" where
  "g_object_set obj name v = obj\<lparr>properties := (properties obj)(name \<mapsto> v)\<rparr>"

definition g_object_get :: "GObject \<Rightarrow> string \<Rightarrow> PropValue option" where
  "g_object_get obj name = properties obj name"

text \<open>
  Modelled from the spec: the constructors of the engine for a "numerator/denominator
  pair" and for a timestamp of whole seconds.
\<close>

definition gnc_numeric_create :: "64 word \<Rightarrow> 64 word \<Rightarrow> gnc_numeric" where
  "gnc_numeric_create n d = \<lparr>num = n, denom = d\<rparr>"

definition gnc_numeric_zero :: gnc_numeric where
  "gnc_numeric_zero = \<lparr>num = 0, denom = 1\<rparr>"

definition timespecFromTime64 :: "64 word \<Rightarrow> Timespec" where
  "timespecFromTime64 t = \<lparr>tv_sec = t, tv_nsec = 0\<rparr>"

subsection \<open>Column descriptors\<close>

definition COL_PKEY :: "32 word" where "COL_PKEY = 0x01"
definition COL_NNUL :: "32 word" where "COL_NNUL = 0x02"
definition COL_UNIQUE :: "32 word" where "COL_UNIQUE = 0x04"
definition COL_AUTOINC :: "32 word" where "COL_AUTOINC = 0x08"

definition CT_INT :: string where "CT_INT = ''ct_int''"
definition CT_INT64 :: string where "CT_INT64 = ''ct_int64''"
definition CT_TIMESPEC :: string where "CT_TIMESPEC = ''ct_timespec''"
definition CT_GDATE :: string where "CT_GDATE = ''ct_gdate''"
definition CT_NUMERIC :: string where "CT_NUMERIC = ''ct_numeric''"

text \<open>\<^verbatim>\<open>struct GncSqlColumnTableEntry\<close>; its member \<^verbatim>\<open>size\<close> is \<open>col_size\<close> here.\<close>

record GncSqlColumnTableEntry =
  col_name :: string
  col_type :: string
  col_size :: nat
  flags :: "32 word"
  gobj_param_name :: "string option"
  qof_param_name :: "string option"
  getter :: "QofAccessFunc option"
  setter :: "QofSetterFunc option"

type_synonym EntryVec = "GncSqlColumnTableEntry list"

datatype GncSqlBasicColumnType =
  BCT_STRING | BCT_INT | BCT_INT64 | BCT_DATE | BCT_DOUBLE | BCT_DATETIME

record GncSqlColumnInfo =
  m_name :: string
  m_type :: GncSqlBasicColumnType
  m_size :: nat
  m_unicode :: bool
  m_autoinc :: bool
  m_primary_key :: bool
  m_not_null :: bool

type_synonym ColVec = "GncSqlColumnInfo list"

text \<open>
  Functions of GLib, the C library and the engine whose behaviour the code relies on
  and whose sources are not at hand; they are parameters of the embedding.
  \<open>g_ascii_strtoll\<close> is the call with base 10.
\<close>

record externals =
  g_ascii_strtoll :: "string option \<Rightarrow> 64 word"
  gnc_iso8601_to_timespec_gmt :: "string \<Rightarrow> Timespec"
  timespec_to_gdate :: "Timespec \<Rightarrow> GDate"
  atoi :: "string \<Rightarrow> 32 word"
  g_date_new_dmy :: "8 word \<Rightarrow> 32 word \<Rightarrow> 16 word \<Rightarrow> GDate option"
  qof_class_get_parameter_getter :: "string \<Rightarrow> string \<Rightarrow> QofAccessFunc option"
  account_begin_edit_descendants :: "GncSqlBackend \<Rightarrow> GncSqlBackend"
  account_commit_edit_descendants :: "GncSqlBackend \<Rightarrow> GncSqlBackend"
  gnc_sql_transaction_load_all_tx :: "GncSqlBackend \<Rightarrow> GncSqlBackend"
  gnc_commodity_begin_commit_edit :: "gnc_commodity \<Rightarrow> GncSqlBackend \<Rightarrow> GncSqlBackend"

definition gnc_sql_get_integer_value :: "externals \<Rightarrow> GValue \<Rightarrow> 64 word" where
  "gnc_sql_get_integer_value x v =
     (case v of
        GInt i \<Rightarrow> scast i
      | GUInt u \<Rightarrow> ucast u
      | GLong l \<Rightarrow> l
      | GULong l \<Rightarrow> l
      | GInt64 i \<Rightarrow> i
      | GUInt64 u \<Rightarrow> u
      | GString s \<Rightarrow> g_ascii_strtoll x s
      | GOther \<Rightarrow> 0)"

definition get_autoinc_id :: QofAccessFunc where
  "get_autoinc_id obj = P_Null"

definition set_autoinc_id :: QofSetterFunc where
  "set_autoinc_id obj item = obj"

definition gnc_sql_get_getter ::
  "externals \<Rightarrow> string \<Rightarrow> GncSqlColumnTableEntry \<Rightarrow> QofAccessFunc option" where
  "gnc_sql_get_getter x obj_name table_row =
     (if flags table_row AND COL_AUTOINC \<noteq> 0 then Some get_autoinc_id
      else case qof_param_name table_row of
             Some q \<Rightarrow> qof_class_get_parameter_getter x obj_name q
           | None \<Rightarrow> getter table_row)"

subsection \<open>The timestamp handler: load\<close>

text \<open>
  \<^verbatim>\<open>g_strdup_printf ("%c%c%c%c-%c%c-%c%c %c%c:%c%c:%c%c", s[0], ..., s[13])\<close> for a string
  of at least 13 characters; with exactly 13 the last \<^verbatim>\<open>%c\<close> prints the terminator.
\<close>

definition iso8601_text :: "string \<Rightarrow> string" where
  "iso8601_text s =
     take 4 s @ ''-'' @ take 2 (drop 4 s) @ ''-'' @ take 2 (drop 6 s) @ '' ''
       @ take 2 (drop 8 s) @ '':'' @ take 2 (drop 10 s) @ '':'' @ take 2 (drop 12 s)"

definition load_timespec ::
  "externals \<Rightarrow> GncSqlBackend \<Rightarrow> GncSqlRow \<Rightarrow> QofSetterFunc option \<Rightarrow> GObject
     \<Rightarrow> GncSqlColumnTableEntry \<Rightarrow> sql_error + GObject" where
  "load_timespec x b row setter_fn pObject table_row =
     (if gobj_param_name table_row = None \<and> setter_fn = None then Inr pObject
      else
        let val = gnc_sql_row_get_value_at_col_name row (col_name table_row);
            ts0 = \<lparr>tv_sec = 0, tv_nsec = 0\<rparr>;
            r = (case val of
                   None \<Rightarrow> Inr (ts0, True)
                 | Some (GInt64 t) \<Rightarrow> Inr (timespecFromTime64 t, True)
                 | Some (GString None) \<Rightarrow> Inr (ts0, False)
                 | Some (GString (Some s)) \<Rightarrow>
                     if length s < 13 then Inl Read_past_end
                     else Inr (gnc_iso8601_to_timespec_gmt x (iso8601_text s), True)
                 | Some _ \<Rightarrow> Inr (ts0, False))
        in case r of
             Inl e \<Rightarrow> Inl e
           | Inr (ts, isOK) \<Rightarrow>
               if isOK then
                 (case gobj_param_name table_row of
                    Some p \<Rightarrow>
                      (let o1 = (if QOF_IS_INSTANCE pObject
                                 then qof_instance_increase_editlevel pObject else pObject);
                           o2 = g_object_set o1 p (P_Timespec ts)
                       in Inr (if QOF_IS_INSTANCE o2
                               then qof_instance_decrease_editlevel o2 else o2))
                  | None \<Rightarrow>
                      (case setter_fn of
                         Some f \<Rightarrow> Inr (f pObject (P_Timespec ts))
                       | None \<Rightarrow> Inr pObject))
               else Inr pObject)"

subsection \<open>The date handler: load\<close>

text \<open>
  The text branch copies with \<^verbatim>\<open>strncpy\<close> from \<^verbatim>\<open>&s[0]\<close>, \<^verbatim>\<open>&s[4]\<close> and
  \<^verbatim>\<open>&s[6]\<close>; the last address lies behind the terminator when the string has fewer
  than 6 characters. Both property branches raise the edit level twice, as the source
  does.
\<close>

definition load_date ::
  "externals \<Rightarrow> GncSqlBackend \<Rightarrow> GncSqlRow \<Rightarrow> QofSetterFunc option \<Rightarrow> GObject
     \<Rightarrow> GncSqlColumnTableEntry \<Rightarrow> sql_error + GObject" where
  "load_date x b row setter_fn pObject table_row =
     (if gobj_param_name table_row = None \<and> setter_fn = None then Inr pObject
      else
        let store = (\<lambda>v.
              case gobj_param_name table_row of
                Some p \<Rightarrow>
                  (let o1 = (if QOF_IS_INSTANCE pObject
                             then qof_instance_increase_editlevel pObject else pObject);
                       o2 = g_object_set o1 p v
                   in if QOF_IS_INSTANCE o2 then qof_instance_increase_editlevel o2 else o2)
              | None \<Rightarrow> (case setter_fn of Some f \<Rightarrow> f pObject v | None \<Rightarrow> pObject))
        in case gnc_sql_row_get_value_at_col_name row (col_name table_row) of
             None \<Rightarrow> Inr pObject
           | Some (GInt64 time) \<Rightarrow>
               (let ts = \<lparr>tv_sec = time, tv_nsec = 0\<rparr>;
                    date = timespec_to_gdate x ts
                in Inr (store (P_GDate date)))
           | Some (GString None) \<Rightarrow> Inr pObject
           | Some (GString (Some s)) \<Rightarrow>
               if length s < 6 then Inl Read_past_end
               else
                 (let y = (ucast (atoi x (take 4 s)) :: 16 word);
                      m = atoi x (take 2 (drop 4 s));
                      d = (ucast (atoi x (take 2 (drop 6 s))) :: 8 word)
                  in if y \<noteq> 0 \<or> m \<noteq> 0 \<or> d \<noteq> 0 then
                       (case g_date_new_dmy x d m y of
                          Some date \<Rightarrow> Inr (store (P_GDate date))
                        | None \<Rightarrow> Inr (store P_Null))
                     else Inr pObject)
           | Some _ \<Rightarrow> Inr pObject)"

subsection \<open>The handler of fixed-point rationals\<close>

definition load_numeric ::
  "externals \<Rightarrow> GncSqlBackend \<Rightarrow> GncSqlRow \<Rightarrow> QofSetterFunc option \<Rightarrow> GObject
     \<Rightarrow> GncSqlColumnTableEntry \<Rightarrow> sql_error + GObject" where
  "load_numeric x b row setter_fn pObject table_row =
     (if gobj_param_name table_row = None \<and> setter_fn = None then Inr pObject
      else
        let val = gnc_sql_row_get_value_at_col_name row (col_name table_row @ ''_num'');
            (isNull, n) = (case val of
                             None \<Rightarrow> (True, 0)
                           | Some v \<Rightarrow> (False, gnc_sql_get_integer_value x v));
            val = gnc_sql_row_get_value_at_col_name row (col_name table_row @ ''_denom'');
            (isNull, d) = (case val of
                             None \<Rightarrow> (True, 1)
                           | Some v \<Rightarrow> (isNull, gnc_sql_get_integer_value x v));
            n = gnc_numeric_create n d
        in if \<not> isNull then
             (case gobj_param_name table_row of
                Some p \<Rightarrow>
                  (let o1 = (if QOF_IS_INSTANCE pObject
                             then qof_instance_increase_editlevel pObject else pObject);
                       o2 = g_object_set o1 p (P_Numeric n)
                   in Inr (if QOF_IS_INSTANCE o2
                           then qof_instance_increase_editlevel o2 else o2))
              | None \<Rightarrow>
                  (case setter_fn of
                     Some f \<Rightarrow> Inr (f pObject (P_Numeric n))
                   | None \<Rightarrow> Inr pObject))
           else Inr pObject)"

definition numeric_col_table :: "string list" where
  "numeric_col_table = [''num'', ''denom'']"

definition add_numeric_col_info_to_list ::
  "GncSqlBackend \<Rightarrow> GncSqlColumnTableEntry \<Rightarrow> ColVec \<Rightarrow> ColVec" where
  "add_numeric_col_info_to_list b table_row vec =
     vec @ map (\<lambda>subtable_col_name.
                  \<lparr>m_name = col_name table_row @ ''_'' @ subtable_col_name,
                   m_type = BCT_INT64, m_size = 0, m_unicode = False, m_autoinc = False,
                   m_primary_key = (flags table_row AND COL_PKEY \<noteq> 0),
                   m_not_null = (flags table_row AND COL_NNUL \<noteq> 0)\<rparr>)
              numeric_col_table"

text \<open>
  The value is read through the named property when the descriptor has one
  (\<^verbatim>\<open>n = *s\<close> crashes on a NULL property), else through the getter, else it is zero.
  The two numbers are printed with \<^verbatim>\<open>operator<<\<close> for \<^verbatim>\<open>int64_t\<close>.
\<close>

definition add_numeric_to_vec ::
  "externals \<Rightarrow> GncSqlBackend \<Rightarrow> string \<Rightarrow> GObject \<Rightarrow> GncSqlColumnTableEntry
     \<Rightarrow> PairVec \<Rightarrow> sql_error + PairVec" where
  "add_numeric_to_vec x b obj_name pObject table_row vec =
     (let r = (case gobj_param_name table_row of
                 Some p \<Rightarrow>
                   (case g_object_get pObject p of
                      Some (P_Numeric s) \<Rightarrow> Inr s
                    | Some P_Null \<Rightarrow> Inl Null_dereference
                    | None \<Rightarrow> Inl Null_dereference
                    | Some _ \<Rightarrow> Inl Type_confusion)
               | None \<Rightarrow>
                   (case gnc_sql_get_getter x obj_name table_row of
                      Some g \<Rightarrow>
                        (case g pObject of
                           P_Numeric s \<Rightarrow> Inr s
                         | _ \<Rightarrow> Inl Type_confusion)
                    | None \<Rightarrow> Inr gnc_numeric_zero))
      in case r of
           Inl e \<Rightarrow> Inl e
         | Inr n \<Rightarrow>
             Inr (vec @ [(col_name table_row @ ''_num'', show_int (sint (num n))),
                         (col_name table_row @ ''_denom'', show_int (sint (denom n)))]))"

subsection \<open>The registry of column types\<close>

record GncSqlColumnTypeHandler =
  load_fn :: "GncSqlBackend \<Rightarrow> GncSqlRow \<Rightarrow> QofSetterFunc option \<Rightarrow> GObject
                \<Rightarrow> GncSqlColumnTableEntry \<Rightarrow> sql_error + GObject"
  add_col_info_to_list_fn :: "GncSqlBackend \<Rightarrow> GncSqlColumnTableEntry \<Rightarrow> ColVec \<Rightarrow> ColVec"
  add_value_to_vec_fn :: "GncSqlBackend \<Rightarrow> string \<Rightarrow> GObject \<Rightarrow> GncSqlColumnTableEntry
                \<Rightarrow> PairVec \<Rightarrow> sql_error + PairVec"

definition numeric_handler :: "externals \<Rightarrow> GncSqlColumnTypeHandler" where
  "numeric_handler x =
     \<lparr>load_fn = load_numeric x,
      add_col_info_to_list_fn = add_numeric_col_info_to_list,
      add_value_to_vec_fn = add_numeric_to_vec x\<rparr>"

text \<open>\<^verbatim>\<open>g_columnTypeHash\<close>: NULL until the first registration.\<close>

type_synonym ColumnTypeHash = "(string \<rightharpoonup> GncSqlColumnTypeHandler) option"

definition gnc_sql_register_col_type_handler ::
  "ColumnTypeHash \<Rightarrow> string \<Rightarrow> GncSqlColumnTypeHandler \<Rightarrow> ColumnTypeHash" where
  "gnc_sql_register_col_type_handler hash colType handler =
     Some ((case hash of None \<Rightarrow> Map.empty | Some h \<Rightarrow> h)(colType \<mapsto> handler))"

definition get_handler ::
  "ColumnTypeHash \<Rightarrow> GncSqlColumnTableEntry \<Rightarrow> sql_error + GncSqlColumnTypeHandler option" where
  "get_handler hash table_row =
     (case hash of
        Some h \<Rightarrow>
          (case h (col_type table_row) of
             None \<Rightarrow> Inl Assertion_failed
           | Some pHandler \<Rightarrow> Inr (Some pHandler))
      | None \<Rightarrow> Inr None)"

subsection \<open>The statement builder\<close>

text \<open>The loop of \<^verbatim>\<open>get_object_values\<close>, with the vector built so far.\<close>

fun get_object_values_from ::
  "ColumnTypeHash \<Rightarrow> GncSqlBackend \<Rightarrow> string \<Rightarrow> GObject \<Rightarrow> EntryVec \<Rightarrow> PairVec
     \<Rightarrow> sql_error + PairVec" where
  "get_object_values_from hash b obj_name pObject [] vec = Inr vec"
| "get_object_values_from hash b obj_name pObject (table_row # rest) vec =
     (if \<not> (flags table_row AND COL_AUTOINC \<noteq> 0) then
        (case get_handler hash table_row of
           Inl e \<Rightarrow> Inl e
         | Inr None \<Rightarrow> Inl Assertion_failed
         | Inr (Some pHandler) \<Rightarrow>
             (case add_value_to_vec_fn pHandler b obj_name pObject table_row vec of
                Inl e \<Rightarrow> Inl e
              | Inr vec' \<Rightarrow> get_object_values_from hash b obj_name pObject rest vec'))
      else get_object_values_from hash b obj_name pObject rest vec)"

definition get_object_values ::
  "ColumnTypeHash \<Rightarrow> GncSqlBackend \<Rightarrow> string \<Rightarrow> GObject \<Rightarrow> EntryVec \<Rightarrow> sql_error + PairVec" where
  "get_object_values hash b obj_name pObject table =
     get_object_values_from hash b obj_name pObject table []"

text \<open>
  The loop that writes \<^verbatim>\<open>col=value\<close>: a comma precedes every pair that differs from
  the first pair of the vector (\<^verbatim>\<open>col_value != *values.begin()\<close>).
\<close>

fun update_set_list :: "GncSqlConnection \<Rightarrow> string \<times> string \<Rightarrow> PairVec \<Rightarrow> string" where
  "update_set_list c first [] = []"
| "update_set_list c first (col_value # rest) =
     (if col_value \<noteq> first then '','' else [])
       @ fst col_value @ ''='' @ gnc_sql_connection_quote_string c (snd col_value)
       @ update_set_list c first rest"

text \<open>The text that \<^verbatim>\<open>build_update_statement\<close> writes to its stream.\<close>

definition update_sql :: "GncSqlConnection \<Rightarrow> string \<Rightarrow> PairVec \<Rightarrow> string" where
  "update_sql c table_name values =
     ''UPDATE '' @ table_name @ '' SET ''
       @ (case values of [] \<Rightarrow> [] | v # _ \<Rightarrow> update_set_list c v values)"

text \<open>
  After the statement has been created, \<^verbatim>\<open>values.erase (values.begin() + 1, values.end())\<close>
  needs a first element, and \<^verbatim>\<open>addWhereCond\<close> is called through the statement pointer.
\<close>

definition build_update_statement ::
  "ColumnTypeHash \<Rightarrow> GncSqlBackend \<Rightarrow> string \<Rightarrow> string \<Rightarrow> GObject \<Rightarrow> EntryVec
     \<Rightarrow> sql_error + GncSqlStatement \<times> GncSqlBackend" where
  "build_update_statement hash b table_name obj_name pObject table =
     (case get_object_values hash b obj_name pObject table of
        Inl e \<Rightarrow> Inl e
      | Inr values \<Rightarrow>
          (let sql = update_sql (conn b) table_name values;
               (stmt, c) = gnc_sql_connection_create_statement_from_sql (conn b) sql
           in case values of
                [] \<Rightarrow> Inl Erase_out_of_range
              | v # _ \<Rightarrow>
                  (case stmt of
                     None \<Rightarrow> Inl Null_dereference
                   | Some s \<Rightarrow> Inr (gnc_sql_statement_add_where_cond s [v], b\<lparr>conn := c\<rparr>))))"

subsection \<open>The registry of object backends\<close>

text \<open>
  Modelled from the spec: the instance of the engine, of which the backend reads the
  declared type and the dirty, destroying and infant marks, and clears the dirty mark.
\<close>

record QofInstance =
  e_type :: string
  dirty :: bool
  do_free :: bool
  infant :: bool

definition qof_instance_mark_clean :: "QofInstance \<Rightarrow> QofInstance" where
  "qof_instance_mark_clean i = i\<lparr>dirty := False\<rparr>"

definition qof_instance_get_dirty_flag :: "QofInstance \<Rightarrow> bool" where
  "qof_instance_get_dirty_flag i = dirty i"

definition qof_instance_get_destroying :: "QofInstance \<Rightarrow> bool" where
  "qof_instance_get_destroying i = do_free i"

text \<open>
  Modelled from the spec: the two functions of the engine on the book. A NULL book
  counts as read-only, and marking a NULL book does nothing.
\<close>

definition qof_book_is_readonly :: "QofBook option \<Rightarrow> bool" where
  "qof_book_is_readonly bk = (case bk of None \<Rightarrow> True | Some k \<Rightarrow> read_only k)"

definition qof_book_mark_session_saved :: "QofBook option \<Rightarrow> QofBook option" where
  "qof_book_mark_session_saved bk = map_option (\<lambda>k. k\<lparr>session_dirty := False\<rparr>) bk"

text \<open>
  \<^verbatim>\<open>GncSqlObjectBackend\<close>, with the two callbacks that the functions below invoke. A
  callback receives the backend (and the instance) and hands back what it made of them.
\<close>

record GncSqlObjectBackend =
  version :: int
  type_name :: string
  commit :: "(GncSqlBackend \<Rightarrow> QofInstance \<Rightarrow> bool \<times> GncSqlBackend \<times> QofInstance) option"
  initial_load :: "(GncSqlBackend \<Rightarrow> GncSqlBackend) option"

definition GNC_SQL_BACKEND_VERSION :: int where "GNC_SQL_BACKEND_VERSION = 1"

type_synonym OBEEntry = "string \<times> GncSqlObjectBackend"
type_synonym OBEVec = "OBEEntry list"
type_synonym StrVec = "string list"

definition gnc_sql_register_backend :: "OBEVec \<Rightarrow> GncSqlObjectBackend \<Rightarrow> OBEVec" where
  "gnc_sql_register_backend backend_registry obe = backend_registry @ [(type_name obe, obe)]"

subsection \<open>Committing one instance\<close>

text \<open>The callback structure \<^verbatim>\<open>sql_backend\<close>, with the members that the commit uses.\<close>

record sql_backend =
  is_known :: bool
  is_ok :: bool
  be :: GncSqlBackend
  inst :: QofInstance

text \<open>
  The static function \<^verbatim>\<open>commit (entry, be_data)\<close>; the name \<open>commit\<close> is taken by the
  member of the object backend.
\<close>

definition commit_entry :: "OBEEntry \<Rightarrow> sql_backend \<Rightarrow> sql_backend" where
  "commit_entry entry be_data =
     (let (type, obe) = entry
      in if version obe \<noteq> GNC_SQL_BACKEND_VERSION then be_data
         else if type \<noteq> e_type (inst be_data) then be_data
         else if is_known be_data then be_data
         else case commit obe of
                None \<Rightarrow> be_data
              | Some f \<Rightarrow>
                  (let (ok, b', i') = f (be be_data) (inst be_data)
                   in be_data\<lparr>is_ok := ok, is_known := True, be := b', inst := i'\<rparr>))"

definition gnc_sql_commit_edit ::
  "OBEVec \<Rightarrow> GncSqlBackend \<Rightarrow> QofInstance \<Rightarrow> GncSqlBackend \<times> QofInstance" where
  "gnc_sql_commit_edit backend_registry b i =
     (if qof_book_is_readonly (book b) then
        (let b1 = qof_backend_set_error b ERR_BACKEND_READONLY;
             (r, c) = gnc_sql_connection_rollback_transaction (conn b1)
         in (b1\<lparr>conn := c\<rparr>, i))
      else if loading b then (b, qof_instance_mark_clean i)
      else if e_type i = ''PriceDB'' then
        (b\<lparr>book := qof_book_mark_session_saved (book b)\<rparr>, qof_instance_mark_clean i)
      else
        let is_dirty = qof_instance_get_dirty_flag i;
            is_destroying = qof_instance_get_destroying i
        in if \<not> is_dirty \<and> \<not> is_destroying then (b, i)
           else
             let (began, c) = gnc_sql_connection_begin_transaction (conn b)
             in if \<not> began then (b\<lparr>conn := c\<rparr>, i)
                else
                  let be_data = foldl (\<lambda>d entry. commit_entry entry d)
                                  \<lparr>is_known = False, is_ok = True, be = b\<lparr>conn := c\<rparr>, inst = i\<rparr>
                                  backend_registry;
                      b1 = be be_data;
                      i1 = inst be_data
                  in if \<not> is_known be_data then
                       (let (r, c1) = gnc_sql_connection_rollback_transaction (conn b1);
                            b2 = b1\<lparr>conn := c1\<rparr>
                        in (b2\<lparr>book := qof_book_mark_session_saved (book b2)\<rparr>,
                            qof_instance_mark_clean i1))
                     else if \<not> is_ok be_data then
                       (let (r, c1) = gnc_sql_connection_rollback_transaction (conn b1)
                        in (b1\<lparr>conn := c1\<rparr>, i1))
                     else
                       (let (r, c1) = gnc_sql_connection_commit_transaction (conn b1);
                            b2 = b1\<lparr>conn := c1\<rparr>
                        in (b2\<lparr>book := qof_book_mark_session_saved (book b2)\<rparr>,
                            qof_instance_mark_clean i1)))"

subsection \<open>Loading\<close>

text \<open>
  Modelled from the spec: the identifiers of the "fixed list (book, commodity, account,
  lot)"; the macros are defined by the engine.
\<close>

definition GNC_ID_BOOK :: string where "GNC_ID_BOOK = ''Book''"
definition GNC_ID_COMMODITY :: string where "GNC_ID_COMMODITY = ''Commodity''"
definition GNC_ID_ACCOUNT :: string where "GNC_ID_ACCOUNT = ''Account''"
definition GNC_ID_LOT :: string where "GNC_ID_LOT = ''Lot''"

definition fixed_load_order :: StrVec where
  "fixed_load_order = [GNC_ID_BOOK, GNC_ID_COMMODITY, GNC_ID_ACCOUNT, GNC_ID_LOT]"

definition gnc_sql_set_load_order :: "StrVec \<Rightarrow> StrVec" where
  "gnc_sql_set_load_order load_order = load_order"

datatype QofBackendLoadType = LOAD_TYPE_INITIAL_LOAD | LOAD_TYPE_LOAD_ALL

text \<open>
  What a load calls outside this file, in the order of the calls: the progress callback
  with 101 and with -1, the \<open>initial_load\<close> of the bundle registered for a type, the
  bracketing of the accounts, the transaction loader, the commit of a commodity.
\<close>

datatype load_call =
    Ev_percentage_update
  | Ev_percentage_finish
  | Ev_initial_load string
  | Ev_AccountBeginEdit
  | Ev_AccountCommitEdit
  | Ev_load_all_tx
  | Ev_commit_commodity gnc_commodity

type_synonym load_state = "GncSqlBackend \<times> load_call list"

definition update_progress :: "GncSqlBackend \<Rightarrow> load_call list \<Rightarrow> load_call list" where
  "update_progress b tr = (if percentage b then tr @ [Ev_percentage_update] else tr)"

definition finish_progress :: "GncSqlBackend \<Rightarrow> load_call list \<Rightarrow> load_call list" where
  "finish_progress b tr = (if percentage b then tr @ [Ev_percentage_finish] else tr)"

text \<open>
  The loop over a load-order list (the source has it twice, once per list). The result
  of \<^verbatim>\<open>std::find_if\<close> is dereferenced before it is compared with the end of the
  registry.
\<close>

fun load_in_order :: "OBEVec \<Rightarrow> StrVec \<Rightarrow> load_state \<Rightarrow> sql_error + load_state" where
  "load_in_order backend_registry [] st = Inr st"
| "load_in_order backend_registry (type # rest) (b, tr) =
     (case find (\<lambda>entry. type = fst entry) backend_registry of
        None \<Rightarrow> Inl Deref_end_iterator
      | Some entry \<Rightarrow>
          (case initial_load (snd entry) of
             None \<Rightarrow> load_in_order backend_registry rest (b, tr)
           | Some f \<Rightarrow>
               load_in_order backend_registry rest
                 (f b, update_progress b tr @ [Ev_initial_load type])))"

text \<open>
  The static function \<^verbatim>\<open>initial_load (entry, be)\<close>; the name \<open>initial_load\<close> is taken
  by the member of the object backend.
\<close>

definition initial_load_entry :: "StrVec \<Rightarrow> OBEEntry \<Rightarrow> load_state \<Rightarrow> load_state" where
  "initial_load_entry other_load_order entry st =
     (let (type, obe) = entry; (b, tr) = st
      in if version obe \<noteq> GNC_SQL_BACKEND_VERSION then st
         else if type \<in> set fixed_load_order then st
         else if type \<in> set other_load_order then st
         else case initial_load obe of
                None \<Rightarrow> st
              | Some f \<Rightarrow> (f b, tr @ [Ev_initial_load type]))"

definition commit_commodity :: "externals \<Rightarrow> load_state \<Rightarrow> gnc_commodity \<Rightarrow> load_state" where
  "commit_commodity x st comm =
     (let (b, tr) = st in (gnc_commodity_begin_commit_edit x comm b, tr @ [Ev_commit_commodity comm]))"

text \<open>
  The book argument of a load is the book of the backend: an initial load stores it in
  \<^verbatim>\<open>be->book\<close> itself, and the session asks for \<^verbatim>\<open>LOAD_TYPE_LOAD_ALL\<close> on the same
  book later. The registry and the load order of the other modules are the file-level
  variables \<^verbatim>\<open>backend_registry\<close> and \<^verbatim>\<open>other_load_order\<close>.
\<close>

definition gnc_sql_load ::
  "externals \<Rightarrow> OBEVec \<Rightarrow> StrVec \<Rightarrow> GncSqlBackend \<Rightarrow> QofBook \<Rightarrow> QofBackendLoadType
     \<Rightarrow> sql_error + load_state" where
  "gnc_sql_load x backend_registry other_load_order b0 bk loadType =
     (let b = b0\<lparr>loading := True\<rparr>;
          loaded =
            (case loadType of
               LOAD_TYPE_INITIAL_LOAD \<Rightarrow>
                 if book b \<noteq> None then Inl Assertion_failed
                 else
                   (case load_in_order backend_registry fixed_load_order
                           (b\<lparr>book := Some bk\<rparr>, []) of
                      Inl e \<Rightarrow> Inl e
                    | Inr st1 \<Rightarrow>
                        (case load_in_order backend_registry other_load_order st1 of
                           Inl e \<Rightarrow> Inl e
                         | Inr (b2, tr2) \<Rightarrow>
                             (let st3 = (account_begin_edit_descendants x b2,
                                         tr2 @ [Ev_AccountBeginEdit]);
                                  (b4, tr4) = foldl (\<lambda>st entry.
                                                 initial_load_entry other_load_order entry st)
                                               st3 backend_registry
                              in Inr (account_commit_edit_descendants x b4,
                                      tr4 @ [Ev_AccountCommitEdit]))))
             | LOAD_TYPE_LOAD_ALL \<Rightarrow>
                 Inr (gnc_sql_transaction_load_all_tx x b, [Ev_load_all_tx]))
      in case loaded of
           Inl e \<Rightarrow> Inl e
         | Inr (b5, tr5) \<Rightarrow>
             (let b6 = b5\<lparr>loading := False\<rparr>;
                  (b7, tr7) = foldl (commit_commodity x) (b6, tr5) (post_load_commodities b6);
                  b8 = b7\<lparr>post_load_commodities := []\<rparr>;
                  b9 = b8\<lparr>book := qof_book_mark_session_saved (book b8)\<rparr>
              in Inr (b9, finish_progress b9 tr7)))"

text \<open>The types whose \<open>initial_load\<close> a load has called, in the order of the calls.\<close>

fun initial_loads :: "load_call list \<Rightarrow> string list" where
  "initial_loads [] = []"
| "initial_loads (Ev_initial_load t # tr) = t # initial_loads tr"
| "initial_loads (_ # tr) = initial_loads tr"

definition loads_of :: "sql_error + load_state \<Rightarrow> sql_error + string list" where
  "loads_of r = map_sum id (\<lambda>st. initial_loads (snd st)) r"

text \<open>
  The list is read from the spec ("fixed-order types, then extension-order types, then
  all remaining registered types in registry order"): the listed types for which the
  first bundle registered under the name has a callback, then the entries of the
  registry that carry the protocol version, are in neither list and have a callback.
\<close>

definition has_initial_load :: "OBEVec \<Rightarrow> string \<Rightarrow> bool" where
  "has_initial_load backend_registry t =
     (case find (\<lambda>entry. t = fst entry) backend_registry of
        None \<Rightarrow> False
      | Some entry \<Rightarrow> initial_load (snd entry) \<noteq> None)"

definition spec_load_sequence :: "OBEVec \<Rightarrow> StrVec \<Rightarrow> string list" where
  "spec_load_sequence backend_registry other_load_order =
     filter (has_initial_load backend_registry) (fixed_load_order @ other_load_order)
       @ map fst (filter (\<lambda>entry. version (snd entry) = GNC_SQL_BACKEND_VERSION
                                  \<and> fst entry \<notin> set (fixed_load_order @ other_load_order)
                                  \<and> initial_load (snd entry) \<noteq> None)
                    backend_registry)"

subsection \<open>Calls made on the connection\<close>

text \<open>The calls that reached the connection between two states of the backend.\<close>

definition issued :: "GncSqlBackend \<Rightarrow> GncSqlBackend \<Rightarrow> conn_call list" where
  "issued b b' = drop (length (calls (conn b))) (calls (conn b'))"

text \<open>
  The calls that running one SQL text makes on a connection: the statement is created
  and, when the connection hands one back, executed.
\<close>

definition nonselect_calls :: "GncSqlConnection \<Rightarrow> string \<Rightarrow> conn_call list" where
  "nonselect_calls c sql =
     Call_createStatementFromSql sql
       # (if createStatementFromSql c (calls c) sql
          then [Call_executeNonSelectStatement \<lparr>stmt_sql = sql, stmt_where = []\<rparr>] else [])"

subsection \<open>Reading results\<close>

text \<open>
  What a result holds when the call has returned: a property of the loaded object, the
  WHERE conditions of the statement built, the types loaded.
\<close>

definition property_after :: "string \<Rightarrow> sql_error + GObject \<Rightarrow> sql_error + PropValue option" where
  "property_after name r = map_sum id (\<lambda>obj. properties obj name) r"

definition where_of ::
  "sql_error + GncSqlStatement \<times> GncSqlBackend \<Rightarrow> sql_error + PairVec list" where
  "where_of r = map_sum id (\<lambda>res. stmt_where (fst res)) r"

subsection \<open>Concrete inputs\<close>

text \<open>
  A connection on which every call succeeds, one on which no statement runs, and one
  that begins no transaction.
\<close>

definition good_conn :: GncSqlConnection where
  "good_conn =
     \<lparr>calls = [],
      executeNonSelectStatement = (\<lambda>h stmt. 1),
      createStatementFromSql = (\<lambda>h sql. True),
      beginTransaction = (\<lambda>h. True),
      rollbackTransaction = (\<lambda>h. True),
      commitTransaction = (\<lambda>h. True),
      quoteString = (\<lambda>s. [CHR 0x27] @ s @ [CHR 0x27])\<rparr>"

definition failing_conn :: GncSqlConnection where
  "failing_conn = good_conn\<lparr>executeNonSelectStatement := (\<lambda>h stmt. - 1)\<rparr>"

definition no_begin_conn :: GncSqlConnection where
  "no_begin_conn = good_conn\<lparr>beginTransaction := (\<lambda>h. False)\<rparr>"

definition dirty_book :: QofBook where
  "dirty_book = \<lparr>read_only = False, session_dirty = True\<rparr>"

definition plain_be :: GncSqlBackend where
  "plain_be =
     \<lparr>last_err = ERR_BACKEND_NO_ERR, percentage = False, conn = good_conn,
      book = Some dirty_book, loading = False, in_query = False, is_pristine_db = False,
      obj_total = 0, operations_done = 0, versions = Map.empty,
      timespec_format = ''%04d%02d%02d%02d%02d%02d'', post_load_commodities = []\<rparr>"

definition plain_externals :: externals where
  "plain_externals =
     \<lparr>g_ascii_strtoll = (\<lambda>s. 0),
      gnc_iso8601_to_timespec_gmt = (\<lambda>s. \<lparr>tv_sec = 0, tv_nsec = 0\<rparr>),
      timespec_to_gdate = (\<lambda>ts. \<lparr>day = 1, month = 1, year = 1970\<rparr>),
      atoi = (\<lambda>s. 0),
      g_date_new_dmy = (\<lambda>d m y. None),
      qof_class_get_parameter_getter = (\<lambda>obj_name param. None),
      account_begin_edit_descendants = (\<lambda>b. b),
      account_commit_edit_descendants = (\<lambda>b. b),
      gnc_sql_transaction_load_all_tx = (\<lambda>b. b),
      gnc_commodity_begin_commit_edit = (\<lambda>comm b. b)\<rparr>"

text \<open>An object without properties, and the accessor pair of one of its properties.\<close>

definition empty_object :: GObject where
  "empty_object = \<lparr>is_qof_instance = True, editlevel = 0, properties = Map.empty\<rparr>"

definition property_setter :: "string \<Rightarrow> QofSetterFunc" where
  "property_setter name obj v = obj\<lparr>properties := (properties obj)(name \<mapsto> v)\<rparr>"

definition property_getter :: "string \<Rightarrow> QofAccessFunc" where
  "property_getter name obj = (case properties obj name of None \<Rightarrow> P_Null | Some v \<Rightarrow> v)"

definition column :: "string \<Rightarrow> string \<Rightarrow> 32 word \<Rightarrow> GncSqlColumnTableEntry" where
  "column name type f =
     \<lparr>col_name = name, col_type = type, col_size = 0, flags = f, gobj_param_name = None,
      qof_param_name = None, getter = Some (property_getter name),
      setter = Some (property_setter name)\<rparr>"

definition priced_object :: GObject where
  "priced_object =
     empty_object\<lparr>properties := [''amount'' \<mapsto> P_Numeric \<lparr>num = 7, denom = 100\<rparr>]\<rparr>"

definition numeric_only_hash :: ColumnTypeHash where
  "numeric_only_hash =
     gnc_sql_register_col_type_handler None CT_NUMERIC (numeric_handler plain_externals)"

text \<open>A table whose first column is an autoincrement key.\<close>

definition autoinc_first_table :: EntryVec where
  "autoinc_first_table =
     [column ''id'' CT_INT (COL_PKEY OR COL_NNUL OR COL_AUTOINC),
      column ''amount'' CT_NUMERIC COL_NNUL]"

text \<open>Instances and object backends.\<close>

definition unknown_instance :: QofInstance where
  "unknown_instance = \<lparr>e_type = ''Widget'', dirty = True, do_free = False, infant = False\<rparr>"

definition pricedb_instance :: QofInstance where
  "pricedb_instance = unknown_instance\<lparr>e_type := ''PriceDB''\<rparr>"

definition loader :: "string \<Rightarrow> GncSqlObjectBackend" where
  "loader name =
     \<lparr>version = GNC_SQL_BACKEND_VERSION, type_name = name, commit = None,
      initial_load = Some (\<lambda>b. b)\<rparr>"

text \<open>
  A registry in which a type of no load-order list is registered first and the four
  types of the fixed list follow in reverse order.
\<close>

definition core_registry :: OBEVec where
  "core_registry =
     foldl gnc_sql_register_backend []
       (map loader [''Budget'', GNC_ID_LOT, GNC_ID_ACCOUNT, GNC_ID_COMMODITY, GNC_ID_BOOK])"

section \<open>The version table: properties\<close>

lemma issued_append: "calls (conn b') = calls (conn b) @ xs \<Longrightarrow> issued b b' = xs"
  by (simp add: issued_def)

lemma execute_nonselect_sql_calls:
  "calls (conn (snd (gnc_sql_execute_nonselect_sql b sql))) = calls (conn b) @ nonselect_calls (conn b) sql"
  by (simp add: gnc_sql_execute_nonselect_sql_def gnc_sql_create_statement_from_sql_def
      gnc_sql_connection_create_statement_from_sql_def nonselect_calls_def
      gnc_sql_connection_execute_nonselect_statement_def qof_backend_set_error_def Let_def
      split: prod.splits option.splits)

lemma execute_nonselect_sql_frame:
  "snd (gnc_sql_execute_nonselect_sql b sql) =
     b\<lparr>conn := conn (snd (gnc_sql_execute_nonselect_sql b sql)),
       last_err := last_err (snd (gnc_sql_execute_nonselect_sql b sql))\<rparr>"
  by (simp add: gnc_sql_execute_nonselect_sql_def gnc_sql_create_statement_from_sql_def
      gnc_sql_connection_create_statement_from_sql_def
      gnc_sql_connection_execute_nonselect_statement_def qof_backend_set_error_def Let_def
      split: prod.splits option.splits)

lemma set_table_version_unfold:
  "0 < v \<Longrightarrow> gnc_sql_get_table_version b t \<noteq> v \<Longrightarrow>
   gnc_sql_set_table_version b t v =
     (True, (let b2 = snd (gnc_sql_execute_nonselect_sql b (version_sql b t v));
                 b3 = (if fst (gnc_sql_execute_nonselect_sql b (version_sql b t v)) = - 1
                       then qof_backend_set_error b2 ERR_BACKEND_SERVER_ERR else b2)
             in b3\<lparr>versions := (versions b3)(t \<mapsto> v)\<rparr>))"
  by (simp add: gnc_sql_set_table_version_def version_sql_def Let_def split: prod.splits)

lemma set_table_version_hit:
  "0 < v \<Longrightarrow> gnc_sql_get_table_version b t = v \<Longrightarrow>
   gnc_sql_set_table_version b t v = (True, b\<lparr>versions := (versions b)(t \<mapsto> v)\<rparr>)"
  by (simp add: gnc_sql_set_table_version_def Let_def)

lemma set_table_version_issued:
  "0 < v \<Longrightarrow> gnc_sql_get_table_version b t \<noteq> v \<Longrightarrow>
   issued b (snd (gnc_sql_set_table_version b t v)) = nonselect_calls (conn b) (version_sql b t v)"
  by (rule issued_append)
     (simp add: set_table_version_unfold Let_def qof_backend_set_error_def execute_nonselect_sql_calls)

text \<open>
  C6, as the code has it. The version that \<open>gnc_sql_set_table_version\<close> compares with is
  the one \<open>gnc_sql_get_table_version\<close> reports: 0 in pristine mode, the cached one
  otherwise. For a version above 0: when the reported version equals the requested one,
  no call reaches the connection; otherwise the call sends an INSERT when the reported
  version is 0 and an UPDATE when it is not; in all three cases the call returns TRUE
  and the cache maps the table to the requested version afterwards. For a version of 0
  or less the call returns FALSE and changes nothing.
\<close>

theorem set_table_version_behaviour:
  "(\<not> 0 < v \<longrightarrow> gnc_sql_set_table_version b t v = (False, b)) \<and>
   (0 < v \<longrightarrow> fst (gnc_sql_set_table_version b t v)
               \<and> versions (snd (gnc_sql_set_table_version b t v)) t = Some v) \<and>
   (0 < v \<and> gnc_sql_get_table_version b t = v \<longrightarrow>
      issued b (snd (gnc_sql_set_table_version b t v)) = []) \<and>
   (0 < v \<and> gnc_sql_get_table_version b t \<noteq> v \<and> gnc_sql_get_table_version b t = 0 \<longrightarrow>
      issued b (snd (gnc_sql_set_table_version b t v))
        = nonselect_calls (conn b) (insert_version_sql t v)) \<and>
   (0 < v \<and> gnc_sql_get_table_version b t \<noteq> v \<and> gnc_sql_get_table_version b t \<noteq> 0 \<longrightarrow>
      issued b (snd (gnc_sql_set_table_version b t v))
        = nonselect_calls (conn b) (update_version_sql t v))"
proof -
  have 1: "\<not> 0 < v \<longrightarrow> gnc_sql_set_table_version b t v = (False, b)"
    by (simp add: gnc_sql_set_table_version_def)
  have 2: "0 < v \<longrightarrow> fst (gnc_sql_set_table_version b t v)
      \<and> versions (snd (gnc_sql_set_table_version b t v)) t = Some v"
  proof (cases "gnc_sql_get_table_version b t = v")
    case True
    then show ?thesis by (simp add: set_table_version_hit)
  next
    case False
    then show ?thesis by (simp add: set_table_version_unfold Let_def)
  qed
  have 3: "0 < v \<and> gnc_sql_get_table_version b t = v \<longrightarrow>
      issued b (snd (gnc_sql_set_table_version b t v)) = []"
    by (simp add: set_table_version_hit issued_def)
  have 4: "0 < v \<and> gnc_sql_get_table_version b t \<noteq> v \<and> gnc_sql_get_table_version b t = 0 \<longrightarrow>
      issued b (snd (gnc_sql_set_table_version b t v))
        = nonselect_calls (conn b) (insert_version_sql t v)"
    using set_table_version_issued [of v b t] by (simp add: version_sql_def)
  have 5: "0 < v \<and> gnc_sql_get_table_version b t \<noteq> v \<and> gnc_sql_get_table_version b t \<noteq> 0 \<longrightarrow>
      issued b (snd (gnc_sql_set_table_version b t v))
        = nonselect_calls (conn b) (update_version_sql t v)"
    using set_table_version_issued [of v b t] by (simp add: version_sql_def)
  from 1 2 3 4 5 show ?thesis by blast
qed

text \<open>
  C7: for every table name, \<open>gnc_sql_get_table_version\<close> returns 0 whenever the backend is
  in pristine-database mode, whatever the cache holds for the table.
\<close>

theorem get_table_version_pristine:
  "is_pristine_db b \<Longrightarrow> gnc_sql_get_table_version b table_name = 0"
  by (simp add: gnc_sql_get_table_version_def)

theorem get_table_version_pristine_witness:
  "is_pristine_db (plain_be\<lparr>is_pristine_db := True, versions := [''foo'' \<mapsto> 3]\<rparr>)
   \<and> versions (plain_be\<lparr>is_pristine_db := True, versions := [''foo'' \<mapsto> 3]\<rparr>) ''foo'' = Some 3
   \<and> gnc_sql_get_table_version (plain_be\<lparr>is_pristine_db := True, versions := [''foo'' \<mapsto> 3]\<rparr>) ''foo'' = 0"
  using get_table_version_pristine [of "plain_be\<lparr>is_pristine_db := True, versions := [''foo'' \<mapsto> 3]\<rparr>" "''foo''"]
  by simp

text \<open>
  C10: for every table name and every version above 0, \<open>gnc_sql_set_table_version\<close>
  returns TRUE and the cache maps the table to the requested version afterwards, also
  when the statement it sends fails (running it yields -1); the failure sets the error
  slot of the backend to the server error, and apart from the slot, the cache and the
  connection the backend is as before.
\<close>

theorem set_table_version_failed_statement:
  assumes "0 < v"
  shows "fst (gnc_sql_set_table_version b t v)
     \<and> versions (snd (gnc_sql_set_table_version b t v)) t = Some v
     \<and> (gnc_sql_get_table_version b t \<noteq> v
          \<and> fst (gnc_sql_execute_nonselect_sql b
                  (if gnc_sql_get_table_version b t = 0 then insert_version_sql t v
                   else update_version_sql t v)) = - 1
        \<longrightarrow> last_err (snd (gnc_sql_set_table_version b t v)) = ERR_BACKEND_SERVER_ERR
          \<and> snd (gnc_sql_set_table_version b t v)
              = b\<lparr>conn := conn (snd (gnc_sql_set_table_version b t v)),
                  last_err := ERR_BACKEND_SERVER_ERR,
                  versions := (versions b)(t \<mapsto> v)\<rparr>)"
proof (cases "gnc_sql_get_table_version b t = v")
  case True
  with assms show ?thesis by (simp add: set_table_version_hit)
next
  case False
  let ?r = "gnc_sql_execute_nonselect_sql b (version_sql b t v)"
  obtain c e where fr: "snd ?r = b\<lparr>conn := c, last_err := e\<rparr>"
    using execute_nonselect_sql_frame [of b "version_sql b t v"] by blast
  from assms False have u: "gnc_sql_set_table_version b t v =
     (True, (let b2 = snd ?r;
                 b3 = (if fst ?r = - 1
                       then qof_backend_set_error b2 ERR_BACKEND_SERVER_ERR else b2)
             in b3\<lparr>versions := (versions b3)(t \<mapsto> v)\<rparr>))"
    by (rule set_table_version_unfold)
  show ?thesis
    unfolding u using fr
    by (simp add: Let_def qof_backend_set_error_def version_sql_def)
qed


lemma nonselect_sql_failing_conn:
  "conn b = failing_conn \<Longrightarrow> fst (gnc_sql_execute_nonselect_sql b sql) = - 1"
  by (simp add: gnc_sql_execute_nonselect_sql_def gnc_sql_create_statement_from_sql_def
      gnc_sql_connection_create_statement_from_sql_def
      gnc_sql_connection_execute_nonselect_statement_def good_conn_def failing_conn_def Let_def)

theorem set_table_version_behaviour_witness:
  "(0::int) < 2
   \<and> gnc_sql_get_table_version (plain_be\<lparr>versions := [''foo'' \<mapsto> 2]\<rparr>) ''foo'' = 2
   \<and> issued (plain_be\<lparr>versions := [''foo'' \<mapsto> 2]\<rparr>)
        (snd (gnc_sql_set_table_version (plain_be\<lparr>versions := [''foo'' \<mapsto> 2]\<rparr>) ''foo'' 2)) = []
   \<and> gnc_sql_get_table_version plain_be ''foo'' = 0
   \<and> issued plain_be (snd (gnc_sql_set_table_version plain_be ''foo'' 2))
       = [Call_createStatementFromSql (insert_version_sql ''foo'' 2),
          Call_executeNonSelectStatement
            \<lparr>stmt_sql = insert_version_sql ''foo'' 2, stmt_where = []\<rparr>]
   \<and> versions (snd (gnc_sql_set_table_version plain_be ''foo'' 2)) ''foo'' = Some 2
   \<and> (0::int) < 3
   \<and> issued (plain_be\<lparr>versions := [''foo'' \<mapsto> 2]\<rparr>)
        (snd (gnc_sql_set_table_version (plain_be\<lparr>versions := [''foo'' \<mapsto> 2]\<rparr>) ''foo'' 3))
       = [Call_createStatementFromSql (update_version_sql ''foo'' 3),
          Call_executeNonSelectStatement
            \<lparr>stmt_sql = update_version_sql ''foo'' 3, stmt_where = []\<rparr>]
   \<and> \<not> (0::int) < 0
   \<and> gnc_sql_set_table_version plain_be ''foo'' 0 = (False, plain_be)"
  using set_table_version_behaviour [of 2 "plain_be\<lparr>versions := [''foo'' \<mapsto> 2]\<rparr>" "''foo''"]
    set_table_version_behaviour [of 2 plain_be "''foo''"]
    set_table_version_behaviour [of 3 "plain_be\<lparr>versions := [''foo'' \<mapsto> 2]\<rparr>" "''foo''"]
    set_table_version_behaviour [of 0 plain_be "''foo''"]
  by (simp add: gnc_sql_get_table_version_def plain_be_def nonselect_calls_def good_conn_def)

text \<open>
  The claim C6 as stated fails in pristine mode, where the cache already holds the
  requested version and an INSERT is sent all the same, and for a version below 1, which
  the cache does not take.
\<close>

theorem set_table_version_counterexample:
  "versions (plain_be\<lparr>is_pristine_db := True, versions := [''foo'' \<mapsto> 2]\<rparr>) ''foo'' = Some 2
   \<and> issued (plain_be\<lparr>is_pristine_db := True, versions := [''foo'' \<mapsto> 2]\<rparr>)
        (snd (gnc_sql_set_table_version
                (plain_be\<lparr>is_pristine_db := True, versions := [''foo'' \<mapsto> 2]\<rparr>) ''foo'' 2))
       = [Call_createStatementFromSql (insert_version_sql ''foo'' 2),
          Call_executeNonSelectStatement
            \<lparr>stmt_sql = insert_version_sql ''foo'' 2, stmt_where = []\<rparr>]
   \<and> versions (snd (gnc_sql_set_table_version plain_be ''foo'' (- 1))) ''foo'' \<noteq> Some (- 1)"
proof -
  let ?b = "plain_be\<lparr>is_pristine_db := True, versions := [''foo'' \<mapsto> 2]\<rparr>"
  have c: "gnc_sql_get_table_version ?b ''foo'' = 0"
    by (simp add: gnc_sql_get_table_version_def)
  have "issued ?b (snd (gnc_sql_set_table_version ?b ''foo'' 2))
          = nonselect_calls (conn ?b) (version_sql ?b ''foo'' 2)"
    by (rule set_table_version_issued) (simp_all add: c)
  moreover have "versions (snd (gnc_sql_set_table_version plain_be ''foo'' (- 1))) ''foo'' = None"
    by (simp add: gnc_sql_set_table_version_def plain_be_def)
  moreover have "conn ?b = good_conn" "versions ?b ''foo'' = Some 2"
    by (simp_all add: plain_be_def)
  ultimately show ?thesis
    by (simp add: c version_sql_def nonselect_calls_def good_conn_def)
qed

theorem set_table_version_failed_statement_witness:
  "(0::int) < 2
   \<and> gnc_sql_get_table_version (plain_be\<lparr>conn := failing_conn\<rparr>) ''foo'' \<noteq> 2
   \<and> fst (gnc_sql_execute_nonselect_sql (plain_be\<lparr>conn := failing_conn\<rparr>)
            (insert_version_sql ''foo'' 2)) = - 1
   \<and> fst (gnc_sql_set_table_version (plain_be\<lparr>conn := failing_conn\<rparr>) ''foo'' 2)
   \<and> versions (snd (gnc_sql_set_table_version (plain_be\<lparr>conn := failing_conn\<rparr>) ''foo'' 2)) ''foo''
       = Some 2
   \<and> last_err (snd (gnc_sql_set_table_version (plain_be\<lparr>conn := failing_conn\<rparr>) ''foo'' 2))
       = ERR_BACKEND_SERVER_ERR"
proof -
  let ?b = "plain_be\<lparr>conn := failing_conn\<rparr>"
  have c: "gnc_sql_get_table_version ?b ''foo'' = 0"
    by (simp add: gnc_sql_get_table_version_def plain_be_def)
  have f: "fst (gnc_sql_execute_nonselect_sql ?b (insert_version_sql ''foo'' 2)) = - 1"
    by (rule nonselect_sql_failing_conn) simp
  show ?thesis
    using set_table_version_failed_statement [of 2 ?b "''foo''"] c f by simp
qed

section \<open>Column handlers: properties\<close>

lemma show_int_7: "show_int 7 = ''7''"
  by (simp add: show_int_def show_nat.simps digit_char_def)

lemma show_int_100: "show_int 100 = ''100''"
  by (simp add: show_int_def show_nat.simps digit_char_def)

text \<open>
  C1, as the code has it. For every descriptor of the fixed-point-rational kind, the load
  of the numeric handler on a row that holds the column \<open><name>_num\<close> and no column
  \<open><name>_denom\<close> leaves the target object as it was: the missing denominator sets
  \<open>isNull\<close>, so the rational with the numerator of the row and the denominator 1 is
  built and not stored.
\<close>

theorem load_numeric_without_denom:
  assumes "row (col_name table_row @ ''_num'') = Some v"
    and "row (col_name table_row @ ''_denom'') = None"
  shows "load_numeric x b row setter_fn pObject table_row = Inr pObject"
  using assms
  by (simp add: load_numeric_def gnc_sql_row_get_value_at_col_name_def Let_def)

theorem load_numeric_without_denom_witness:
  "[''amount_num'' \<mapsto> GInt64 7] (col_name (column ''amount'' CT_NUMERIC COL_NNUL) @ ''_num'')
     = Some (GInt64 7)
   \<and> [''amount_num'' \<mapsto> GInt64 7] (col_name (column ''amount'' CT_NUMERIC COL_NNUL) @ ''_denom'')
     = None
   \<and> load_numeric plain_externals plain_be [''amount_num'' \<mapsto> GInt64 7]
       (Some (property_setter ''amount'')) empty_object (column ''amount'' CT_NUMERIC COL_NNUL)
     = Inr empty_object"
  using load_numeric_without_denom [of "[''amount_num'' \<mapsto> GInt64 7]"
      "column ''amount'' CT_NUMERIC COL_NNUL" "GInt64 7" plain_externals plain_be
      "Some (property_setter ''amount'')" empty_object]
  by (simp add: column_def)

text \<open>
  The claim C1 as stated fails: after the load of a row with \<open>amount_num = 7\<close> and no
  \<open>amount_denom\<close> the property is still unset; it is not the rational 7/1.
\<close>

theorem load_numeric_counterexample:
  "property_after ''amount''
     (load_numeric plain_externals plain_be [''amount_num'' \<mapsto> GInt64 7]
        (Some (property_setter ''amount'')) empty_object (column ''amount'' CT_NUMERIC COL_NNUL))
     = Inr None
   \<and> property_after ''amount''
     (load_numeric plain_externals plain_be [''amount_num'' \<mapsto> GInt64 7]
        (Some (property_setter ''amount'')) empty_object (column ''amount'' CT_NUMERIC COL_NNUL))
     \<noteq> Inr (Some (P_Numeric \<lparr>num = 7, denom = 1\<rparr>))"
  by (simp add: load_numeric_def gnc_sql_row_get_value_at_col_name_def Let_def column_def
      empty_object_def property_after_def)

text \<open>
  With both columns in the row the same call stores the rational.
\<close>

lemma load_numeric_full_row:
  "load_numeric plain_externals plain_be [''amount_num'' \<mapsto> GInt64 7, ''amount_denom'' \<mapsto> GInt64 100]
       (Some (property_setter ''amount'')) empty_object (column ''amount'' CT_NUMERIC COL_NNUL)
     = Inr (property_setter ''amount'' empty_object (P_Numeric \<lparr>num = 7, denom = 100\<rparr>))"
  by (simp add: load_numeric_def gnc_sql_row_get_value_at_col_name_def Let_def column_def
      gnc_sql_get_integer_value_def gnc_numeric_create_def)

text \<open>
  C2, as the code has it. On a row in which the column is null, the load of the
  calendar-date handler leaves the target object unmodified; the load of the timestamp
  handler sets \<open>isOK\<close> and writes the zero timestamp \<open>{0, 0}\<close> to the target, through
  the named property when the descriptor has one and through the setter otherwise.
\<close>

theorem load_null_date_timespec:
  assumes "row (col_name table_row) = None"
  shows "load_date x b row setter_fn pObject table_row = Inr pObject
       \<and> load_timespec x b row setter_fn pObject table_row
           = Inr (case gobj_param_name table_row of
                    Some p \<Rightarrow> g_object_set pObject p (P_Timespec \<lparr>tv_sec = 0, tv_nsec = 0\<rparr>)
                  | None \<Rightarrow>
                      (case setter_fn of
                         Some f \<Rightarrow> f pObject (P_Timespec \<lparr>tv_sec = 0, tv_nsec = 0\<rparr>)
                       | None \<Rightarrow> pObject))"
  using assms
  by (simp add: load_date_def load_timespec_def gnc_sql_row_get_value_at_col_name_def Let_def
      QOF_IS_INSTANCE_def qof_instance_increase_editlevel_def qof_instance_decrease_editlevel_def
      g_object_set_def split: option.splits)

theorem load_null_date_timespec_witness:
  "Map.empty (col_name (column ''date'' CT_GDATE 0)) = (None :: GValue option)
   \<and> load_date plain_externals plain_be Map.empty (Some (property_setter ''date''))
        empty_object (column ''date'' CT_GDATE 0) = Inr empty_object
   \<and> Map.empty (col_name (column ''date_posted'' CT_TIMESPEC COL_NNUL)) = (None :: GValue option)
   \<and> load_timespec plain_externals plain_be Map.empty (Some (property_setter ''date_posted''))
        empty_object (column ''date_posted'' CT_TIMESPEC COL_NNUL)
      = Inr (empty_object\<lparr>properties :=
               [''date_posted'' \<mapsto> P_Timespec \<lparr>tv_sec = 0, tv_nsec = 0\<rparr>]\<rparr>)"
  using load_null_date_timespec [of Map.empty "column ''date'' CT_GDATE 0"
      plain_externals plain_be "Some (property_setter ''date'')" empty_object]
    load_null_date_timespec [of Map.empty "column ''date_posted'' CT_TIMESPEC COL_NNUL"
      plain_externals plain_be "Some (property_setter ''date_posted'')" empty_object]
  by (simp add: column_def property_setter_def empty_object_def)

text \<open>
  The claim C2 as stated fails for the timestamp kind: the load of a row without the
  column calls the setter, and the property holds the zero timestamp afterwards.
\<close>

theorem load_timespec_null_counterexample:
  "load_timespec plain_externals plain_be Map.empty (Some (property_setter ''date_posted''))
        empty_object (column ''date_posted'' CT_TIMESPEC COL_NNUL)
      \<noteq> Inr empty_object
   \<and> property_after ''date_posted''
       (load_timespec plain_externals plain_be Map.empty (Some (property_setter ''date_posted''))
          empty_object (column ''date_posted'' CT_TIMESPEC COL_NNUL))
      = Inr (Some (P_Timespec \<lparr>tv_sec = 0, tv_nsec = 0\<rparr>))"
  by (simp add: load_timespec_def gnc_sql_row_get_value_at_col_name_def Let_def column_def
      property_setter_def empty_object_def property_after_def)

text \<open>
  C8: for every fixed-point-rational descriptor with column name \<open><name>\<close>, serializing
  an object whose property holds numerator 7 and denominator 100 appends exactly the two
  pairs \<open>(<name>_num, "7")\<close> and \<open>(<name>_denom, "100")\<close>, in this order, and nothing
  else. That the property holds the value means that the accessor of the descriptor
  yields it: the named property when the descriptor has one, the getter that
  \<open>gnc_sql_get_getter\<close> resolves otherwise.
\<close>

theorem add_numeric_to_vec_7_100:
  assumes "(\<exists>p. gobj_param_name table_row = Some p
               \<and> g_object_get pObject p = Some (P_Numeric \<lparr>num = 7, denom = 100\<rparr>))
         \<or> (gobj_param_name table_row = None
               \<and> (\<exists>g. gnc_sql_get_getter x obj_name table_row = Some g
                     \<and> g pObject = P_Numeric \<lparr>num = 7, denom = 100\<rparr>))"
  shows "add_numeric_to_vec x b obj_name pObject table_row vec
           = Inr (vec @ [(col_name table_row @ ''_num'', ''7''),
                         (col_name table_row @ ''_denom'', ''100'')])"
  using assms
  by (auto simp add: add_numeric_to_vec_def Let_def show_int_7 show_int_100)

theorem add_numeric_to_vec_7_100_witness:
  "gobj_param_name (column ''amount'' CT_NUMERIC COL_NNUL) = None
   \<and> gnc_sql_get_getter plain_externals ''Split'' (column ''amount'' CT_NUMERIC COL_NNUL)
       = Some (property_getter ''amount'')
   \<and> property_getter ''amount'' priced_object = P_Numeric \<lparr>num = 7, denom = 100\<rparr>
   \<and> add_numeric_to_vec plain_externals plain_be ''Split'' priced_object
        (column ''amount'' CT_NUMERIC COL_NNUL) []
       = Inr [(''amount_num'', ''7''), (''amount_denom'', ''100'')]"
proof -
  have g: "gnc_sql_get_getter plain_externals ''Split'' (column ''amount'' CT_NUMERIC COL_NNUL)
       = Some (property_getter ''amount'')"
    by (simp add: gnc_sql_get_getter_def column_def COL_NNUL_def COL_AUTOINC_def)
  have p: "property_getter ''amount'' priced_object = P_Numeric \<lparr>num = 7, denom = 100\<rparr>"
    by (simp add: property_getter_def priced_object_def)
  have n: "gobj_param_name (column ''amount'' CT_NUMERIC COL_NNUL) = None"
    by (simp add: column_def)
  show ?thesis
    using add_numeric_to_vec_7_100 [of "column ''amount'' CT_NUMERIC COL_NNUL" priced_object
        plain_externals "''Split''" plain_be "[]"] g p n
    by (simp add: column_def)
qed

section \<open>The update statement: properties\<close>

text \<open>
  What the builder hands back: a statement exactly when serializing the object yields at
  least one pair and the connection creates the statement; its single WHERE condition
  holds the first pair of the serialized list.
\<close>

lemma build_update_statement_result:
  "build_update_statement hash b table_name obj_name pObject table = Inr (stmt, b')
   \<longleftrightarrow> (\<exists>p ps. get_object_values hash b obj_name pObject table = Inr (p # ps)
          \<and> createStatementFromSql (conn b) (calls (conn b))
                (update_sql (conn b) table_name (p # ps))
          \<and> stmt = \<lparr>stmt_sql = update_sql (conn b) table_name (p # ps), stmt_where = [[p]]\<rparr>
          \<and> b' = b\<lparr>conn := (conn b)\<lparr>calls := calls (conn b)
                    @ [Call_createStatementFromSql (update_sql (conn b) table_name (p # ps))]\<rparr>\<rparr>)"
  by (auto simp add: build_update_statement_def gnc_sql_connection_create_statement_from_sql_def
      gnc_sql_statement_add_where_cond_def Let_def
      split: sum.splits list.splits option.splits if_splits)

lemma autoinc_first_values:
  "get_object_values numeric_only_hash plain_be ''Split'' priced_object autoinc_first_table
     = Inr [(''amount_num'', ''7''), (''amount_denom'', ''100'')]"
  by (simp add: get_object_values_def autoinc_first_table_def column_def numeric_only_hash_def
      gnc_sql_register_col_type_handler_def get_handler_def CT_NUMERIC_def CT_INT_def
      COL_PKEY_def COL_NNUL_def COL_AUTOINC_def numeric_handler_def add_numeric_to_vec_def
      gnc_sql_get_getter_def property_getter_def priced_object_def empty_object_def
      show_int_7 show_int_100 Let_def)

lemma autoinc_first_sql:
  "update_sql good_conn ''splits'' [(''amount_num'', ''7''), (''amount_denom'', ''100'')]
     = ''UPDATE splits SET amount_num='' @ [CHR 0x27] @ ''7'' @ [CHR 0x27]
         @ '',amount_denom='' @ [CHR 0x27] @ ''100'' @ [CHR 0x27]"
  by (simp add: update_sql_def gnc_sql_connection_quote_string_def good_conn_def)

lemma autoinc_first_update:
  "build_update_statement numeric_only_hash plain_be ''splits'' ''Split'' priced_object
      autoinc_first_table
    = Inr (\<lparr>stmt_sql = ''UPDATE splits SET amount_num='' @ [CHR 0x27] @ ''7'' @ [CHR 0x27]
                        @ '',amount_denom='' @ [CHR 0x27] @ ''100'' @ [CHR 0x27],
            stmt_where = [[(''amount_num'', ''7'')]]\<rparr>,
           plain_be\<lparr>conn := good_conn\<lparr>calls :=
             [Call_createStatementFromSql
                (''UPDATE splits SET amount_num='' @ [CHR 0x27] @ ''7'' @ [CHR 0x27]
                        @ '',amount_denom='' @ [CHR 0x27] @ ''100'' @ [CHR 0x27])]\<rparr>\<rparr>)"
proof -
  have c: "conn plain_be = good_conn"
    by (simp add: plain_be_def)
  have g: "createStatementFromSql good_conn h sql" "calls good_conn = []" for h sql
    by (simp_all add: good_conn_def)
  show ?thesis
    by (subst build_update_statement_result) (simp add: autoinc_first_values c g autoinc_first_sql)
qed

text \<open>
  C5: for every table name, object and descriptor table, the UPDATE statement carries a
  WHERE clause of exactly one column/value pair, the column of the first descriptor and
  its serialized value, as the comment in the builder says ("just the first column and
  value, i.e. the guid of the object") and as the DELETE builder does with \<^verbatim>\<open>table[0]\<close>.
  The code misses this where the first descriptor is an autoincrement key: the builder
  takes the first pair of the serialized list, from which autoincrement descriptors are
  left out. On the table with the columns \<open>id\<close> (autoincrement) and \<open>amount\<close> (rational
  7/100) the statement is keyed on \<open>amount_num = 7\<close>, not on \<open>id\<close>.
\<close>

theorem build_update_statement_autoinc_first:
  "col_name (hd autoinc_first_table) = ''id''
   \<and> flags (hd autoinc_first_table) AND COL_AUTOINC \<noteq> 0
   \<and> where_of
       (build_update_statement numeric_only_hash plain_be ''splits'' ''Split'' priced_object
          autoinc_first_table)
     = Inr [[(''amount_num'', ''7'')]]"
proof -
  have "where_of
       (build_update_statement numeric_only_hash plain_be ''splits'' ''Split'' priced_object
          autoinc_first_table)
     = Inr [[(''amount_num'', ''7'')]]"
    unfolding autoinc_first_update by (simp add: where_of_def)
  then show ?thesis
    by (simp add: autoinc_first_table_def column_def COL_PKEY_def COL_NNUL_def COL_AUTOINC_def)
qed

section \<open>Committing one instance: properties\<close>

lemma core_registry_unfold:
  "core_registry = [(''Budget'', loader ''Budget''), (''Lot'', loader ''Lot''),
     (''Account'', loader ''Account''), (''Commodity'', loader ''Commodity''),
     (''Book'', loader ''Book'')]"
  by (simp add: core_registry_def gnc_sql_register_backend_def loader_def
      GNC_ID_BOOK_def GNC_ID_COMMODITY_def GNC_ID_ACCOUNT_def GNC_ID_LOT_def)

lemma fixed_load_order_unfold:
  "fixed_load_order = [''Book'', ''Commodity'', ''Account'', ''Lot'']"
  by (simp add: fixed_load_order_def
      GNC_ID_BOOK_def GNC_ID_COMMODITY_def GNC_ID_ACCOUNT_def GNC_ID_LOT_def)

lemma commit_entry_other_type:
  "fst entry \<noteq> e_type (inst d) \<Longrightarrow> commit_entry entry d = d"
  by (cases entry) (auto simp add: commit_entry_def)

lemma commit_loop_no_match:
  "\<forall>entry\<in>set reg. fst entry \<noteq> e_type (inst d) \<Longrightarrow>
   foldl (\<lambda>d entry. commit_entry entry d) d reg = d"
  by (induction reg arbitrary: d) (simp_all add: commit_entry_other_type)

text \<open>
  C3, as the code has it. For every dirty or to-be-destroyed instance whose declared type
  matches no bundle of the registry, when the book is not read-only, the backend is not
  loading, the type is not \<open>PriceDB\<close> and the connection begins the transaction,
  \<open>gnc_sql_commit_edit\<close> begins a transaction and rolls it back, and calls nothing else
  on the connection; afterwards the instance and the book are not dirty.
\<close>

theorem commit_edit_unknown_type:
  assumes "\<not> qof_book_is_readonly (book b)" and "\<not> loading b" and "e_type i \<noteq> ''PriceDB''"
    and "dirty i \<or> do_free i"
    and "beginTransaction (conn b) (calls (conn b))"
    and "e_type i \<notin> fst ` set backend_registry"
  shows "gnc_sql_commit_edit backend_registry b i
           = (b\<lparr>conn := (conn b)\<lparr>calls := calls (conn b)
                                    @ [Call_beginTransaction, Call_rollbackTransaction]\<rparr>,
                book := qof_book_mark_session_saved (book b)\<rparr>,
              qof_instance_mark_clean i)
       \<and> issued b (fst (gnc_sql_commit_edit backend_registry b i))
           = [Call_beginTransaction, Call_rollbackTransaction]
       \<and> \<not> dirty (snd (gnc_sql_commit_edit backend_registry b i))
       \<and> (\<exists>k. book (fst (gnc_sql_commit_edit backend_registry b i)) = Some k
              \<and> \<not> session_dirty k)"
proof -
  let ?d = "\<lparr>is_known = False, is_ok = True,
            be = b\<lparr>conn := (conn b)\<lparr>calls := calls (conn b) @ [Call_beginTransaction]\<rparr>\<rparr>,
            inst = i\<rparr>"
  have loop: "foldl (\<lambda>d entry. commit_entry entry d) ?d backend_registry = ?d"
    by (rule commit_loop_no_match) (use assms(6) in force)
  have eq: "gnc_sql_commit_edit backend_registry b i
           = (b\<lparr>conn := (conn b)\<lparr>calls := calls (conn b)
                                    @ [Call_beginTransaction, Call_rollbackTransaction]\<rparr>,
                book := qof_book_mark_session_saved (book b)\<rparr>,
              qof_instance_mark_clean i)"
    using assms(1-5)
    by (auto simp add: gnc_sql_commit_edit_def gnc_sql_connection_begin_transaction_def
        gnc_sql_connection_rollback_transaction_def qof_instance_get_dirty_flag_def
        qof_instance_get_destroying_def loop Let_def)
  from assms(1) obtain k where k: "book b = Some k"
    by (cases "book b") (simp_all add: qof_book_is_readonly_def)
  show ?thesis
    unfolding eq
    by (simp add: issued_def k qof_book_mark_session_saved_def qof_instance_mark_clean_def)
qed

theorem commit_edit_unknown_type_witness:
  "\<not> qof_book_is_readonly (book plain_be) \<and> \<not> loading plain_be
   \<and> e_type unknown_instance \<noteq> ''PriceDB''
   \<and> (dirty unknown_instance \<or> do_free unknown_instance)
   \<and> beginTransaction (conn plain_be) (calls (conn plain_be))
   \<and> e_type unknown_instance \<notin> fst ` set core_registry
   \<and> issued plain_be (fst (gnc_sql_commit_edit core_registry plain_be unknown_instance))
       = [Call_beginTransaction, Call_rollbackTransaction]
   \<and> \<not> dirty (snd (gnc_sql_commit_edit core_registry plain_be unknown_instance))
   \<and> book (fst (gnc_sql_commit_edit core_registry plain_be unknown_instance))
       = Some (dirty_book\<lparr>session_dirty := False\<rparr>)"
proof -
  have h: "\<not> qof_book_is_readonly (book plain_be)" "\<not> loading plain_be"
    "e_type unknown_instance \<noteq> ''PriceDB''"
    "dirty unknown_instance \<or> do_free unknown_instance"
    "beginTransaction (conn plain_be) (calls (conn plain_be))"
    "e_type unknown_instance \<notin> fst ` set core_registry"
    by (simp_all add: plain_be_def qof_book_is_readonly_def dirty_book_def unknown_instance_def
        good_conn_def core_registry_unfold)
  have bk: "book plain_be = Some dirty_book"
    by (simp add: plain_be_def)
  have eq: "gnc_sql_commit_edit core_registry plain_be unknown_instance
           = (plain_be\<lparr>conn := (conn plain_be)\<lparr>calls := calls (conn plain_be)
                                    @ [Call_beginTransaction, Call_rollbackTransaction]\<rparr>,
                book := qof_book_mark_session_saved (book plain_be)\<rparr>,
              qof_instance_mark_clean unknown_instance)"
    using commit_edit_unknown_type [OF h] by blast
  show ?thesis
    unfolding eq using h
    by (simp add: bk qof_book_mark_session_saved_def issued_def qof_instance_mark_clean_def)
qed

text \<open>
  The claim C3 as stated fails behind the guards that come first: with a read-only book
  the instance stays dirty; while the backend is loading the book stays dirty and no
  transaction is begun or rolled back; when the connection begins no transaction the
  instance stays dirty; for the type \<open>PriceDB\<close> no transaction is begun or rolled back.
\<close>

theorem commit_edit_unknown_type_counterexample:
  "dirty unknown_instance
   \<and> e_type unknown_instance \<notin> fst ` set core_registry
   \<and> dirty (snd (gnc_sql_commit_edit core_registry
                   (plain_be\<lparr>book := Some (dirty_book\<lparr>read_only := True\<rparr>)\<rparr>) unknown_instance))
   \<and> book (fst (gnc_sql_commit_edit core_registry (plain_be\<lparr>loading := True\<rparr>) unknown_instance))
       = Some dirty_book
   \<and> session_dirty dirty_book
   \<and> issued (plain_be\<lparr>loading := True\<rparr>)
        (fst (gnc_sql_commit_edit core_registry (plain_be\<lparr>loading := True\<rparr>) unknown_instance))
       = []
   \<and> dirty (snd (gnc_sql_commit_edit core_registry (plain_be\<lparr>conn := no_begin_conn\<rparr>)
                   unknown_instance))
   \<and> dirty pricedb_instance
   \<and> e_type pricedb_instance \<notin> fst ` set core_registry
   \<and> issued plain_be (fst (gnc_sql_commit_edit core_registry plain_be pricedb_instance)) = []"
proof -
  have ro: "dirty (snd (gnc_sql_commit_edit core_registry
                   (plain_be\<lparr>book := Some (dirty_book\<lparr>read_only := True\<rparr>)\<rparr>) unknown_instance))"
    by (simp add: gnc_sql_commit_edit_def qof_book_is_readonly_def Let_def unknown_instance_def
        split: prod.splits)
  have ld: "gnc_sql_commit_edit core_registry (plain_be\<lparr>loading := True\<rparr>) unknown_instance
              = (plain_be\<lparr>loading := True\<rparr>, qof_instance_mark_clean unknown_instance)"
    by (simp add: gnc_sql_commit_edit_def qof_book_is_readonly_def plain_be_def dirty_book_def)
  have nb: "dirty (snd (gnc_sql_commit_edit core_registry (plain_be\<lparr>conn := no_begin_conn\<rparr>)
                   unknown_instance))"
    by (simp add: gnc_sql_commit_edit_def qof_book_is_readonly_def plain_be_def dirty_book_def
        unknown_instance_def qof_instance_get_dirty_flag_def qof_instance_get_destroying_def
        gnc_sql_connection_begin_transaction_def no_begin_conn_def good_conn_def Let_def)
  have pd: "gnc_sql_commit_edit core_registry plain_be pricedb_instance
              = (plain_be\<lparr>book := qof_book_mark_session_saved (book plain_be)\<rparr>,
                 qof_instance_mark_clean pricedb_instance)"
    by (simp add: gnc_sql_commit_edit_def qof_book_is_readonly_def plain_be_def dirty_book_def
        pricedb_instance_def)
  show ?thesis
    unfolding ld pd using ro nb
    by (simp add: issued_def plain_be_def dirty_book_def unknown_instance_def
        pricedb_instance_def core_registry_unfold)
qed

text \<open>
  C9, as the code has it. For every instance and every registry, when the book is not
  read-only and the loading flag is set, \<open>gnc_sql_commit_edit\<close> marks the instance clean
  and returns the backend as it was: no call reaches the connection, and the result does
  not depend on the registry.
\<close>

theorem commit_edit_while_loading:
  assumes "\<not> qof_book_is_readonly (book b)" and "loading b"
  shows "gnc_sql_commit_edit backend_registry b i = (b, qof_instance_mark_clean i)
       \<and> issued b (fst (gnc_sql_commit_edit backend_registry b i)) = []
       \<and> \<not> dirty (snd (gnc_sql_commit_edit backend_registry b i))"
  using assms
  by (simp add: gnc_sql_commit_edit_def issued_def qof_instance_mark_clean_def)

theorem commit_edit_while_loading_witness:
  "\<not> qof_book_is_readonly (book (plain_be\<lparr>loading := True\<rparr>))
   \<and> loading (plain_be\<lparr>loading := True\<rparr>)
   \<and> gnc_sql_commit_edit core_registry (plain_be\<lparr>loading := True\<rparr>) unknown_instance
       = (plain_be\<lparr>loading := True\<rparr>, unknown_instance\<lparr>dirty := False\<rparr>)"
  using commit_edit_while_loading [of "plain_be\<lparr>loading := True\<rparr>" core_registry unknown_instance]
  by (simp add: plain_be_def qof_book_is_readonly_def dirty_book_def qof_instance_mark_clean_def)

text \<open>
  The claim C9 as stated fails when the book is read-only: the test of the book comes
  before the test of the loading flag, the instance stays dirty and a rollback is sent.
\<close>

theorem commit_edit_while_loading_counterexample:
  "loading (plain_be\<lparr>loading := True, book := Some (dirty_book\<lparr>read_only := True\<rparr>)\<rparr>)
   \<and> dirty (snd (gnc_sql_commit_edit core_registry
                   (plain_be\<lparr>loading := True, book := Some (dirty_book\<lparr>read_only := True\<rparr>)\<rparr>)
                   unknown_instance))
   \<and> issued (plain_be\<lparr>loading := True, book := Some (dirty_book\<lparr>read_only := True\<rparr>)\<rparr>)
        (fst (gnc_sql_commit_edit core_registry
                (plain_be\<lparr>loading := True, book := Some (dirty_book\<lparr>read_only := True\<rparr>)\<rparr>)
                unknown_instance))
       = [Call_rollbackTransaction]"
  by (simp add: gnc_sql_commit_edit_def qof_book_is_readonly_def Let_def
      gnc_sql_connection_rollback_transaction_def qof_backend_set_error_def issued_def
      unknown_instance_def split: prod.splits)

section \<open>Loading: properties\<close>

lemma initial_loads_append:
  "initial_loads (tr @ tr') = initial_loads tr @ initial_loads tr'"
  by (induction tr rule: initial_loads.induct) simp_all

lemma initial_loads_update_progress:
  "initial_loads (update_progress b tr) = initial_loads tr"
  by (simp add: update_progress_def initial_loads_append)

lemma initial_loads_finish_progress:
  "initial_loads (finish_progress b tr) = initial_loads tr"
  by (simp add: finish_progress_def initial_loads_append)

lemma load_in_order_loads:
  "load_in_order reg types st = Inr st' \<Longrightarrow>
   initial_loads (snd st') = initial_loads (snd st) @ filter (has_initial_load reg) types"
proof (induction types arbitrary: st)
  case Nil
  then show ?case by simp
next
  case (Cons t types)
  obtain b tr where st: "st = (b, tr)" by (cases st)
  show ?case
  proof (cases "find (\<lambda>entry. t = fst entry) reg")
    case None
    with Cons.prems st show ?thesis by simp
  next
    case (Some entry)
    show ?thesis
    proof (cases "initial_load (snd entry)")
      case None
      with Some Cons.prems st
      have "load_in_order reg types (b, tr) = Inr st'" by simp
      from Cons.IH [OF this] Some None st show ?thesis
        by (simp add: has_initial_load_def)
    next
      case (Some f)
      with \<open>find (\<lambda>entry. t = fst entry) reg = Some entry\<close> Cons.prems st
      have "load_in_order reg types (f b, update_progress b tr @ [Ev_initial_load t]) = Inr st'"
        by simp
      from Cons.IH [OF this] Some \<open>find (\<lambda>entry. t = fst entry) reg = Some entry\<close> st
      show ?thesis
        by (simp add: has_initial_load_def initial_loads_append initial_loads_update_progress)
    qed
  qed
qed

lemma load_in_order_total:
  "\<forall>t\<in>set types. \<exists>entry\<in>set reg. fst entry = t \<Longrightarrow> \<exists>st'. load_in_order reg types st = Inr st'"
proof (induction types arbitrary: st)
  case Nil
  then show ?case by simp
next
  case (Cons t types)
  obtain b tr where st: "st = (b, tr)" by (cases st)
  from Cons.prems obtain entry where "find (\<lambda>entry. t = fst entry) reg = Some entry"
    by (cases "find (\<lambda>entry. t = fst entry) reg") (auto simp add: find_None_iff)
  moreover from Cons.prems have "\<forall>t\<in>set types. \<exists>entry\<in>set reg. fst entry = t" by simp
  ultimately show ?case
    using Cons.IH st by (cases "initial_load (snd entry)") simp_all
qed

lemma initial_load_loop_loads:
  "initial_loads (snd (foldl (\<lambda>st entry. initial_load_entry other entry st) st reg))
     = initial_loads (snd st)
       @ map fst (filter (\<lambda>entry. version (snd entry) = GNC_SQL_BACKEND_VERSION
                                  \<and> fst entry \<notin> set (fixed_load_order @ other)
                                  \<and> initial_load (snd entry) \<noteq> None) reg)"
proof (induction reg arbitrary: st)
  case Nil
  then show ?case by simp
next
  case (Cons entry reg)
  have "initial_loads (snd (initial_load_entry other entry st))
          = initial_loads (snd st)
            @ map fst (filter (\<lambda>entry. version (snd entry) = GNC_SQL_BACKEND_VERSION
                                  \<and> fst entry \<notin> set (fixed_load_order @ other)
                                  \<and> initial_load (snd entry) \<noteq> None) [entry])"
    by (cases entry; cases st)
       (auto simp add: initial_load_entry_def initial_loads_append split: option.splits)
  then show ?case
    using Cons.IH [of "initial_load_entry other entry st"] by simp
qed

lemma commit_commodity_loads:
  "initial_loads (snd (foldl (commit_commodity x) st cs)) = initial_loads (snd st)"
  by (induction cs arbitrary: st)
     (simp_all add: commit_commodity_def initial_loads_append split: prod.splits)

lemma count_list_filter_distinct:
  "distinct xs \<Longrightarrow> t \<in> set xs \<Longrightarrow> P t \<Longrightarrow> count_list (filter P xs) t = 1"
  by (induction xs) (auto simp add: count_list_0_iff)

lemma spec_load_sequence_once:
  assumes "distinct (fixed_load_order @ other)" and "t \<in> set (fixed_load_order @ other)"
    and "has_initial_load reg t"
  shows "count_list (spec_load_sequence reg other) t = 1"
proof -
  have "t \<notin> set (map fst (filter (\<lambda>entry. version (snd entry) = GNC_SQL_BACKEND_VERSION
                                  \<and> fst entry \<notin> set (fixed_load_order @ other)
                                  \<and> initial_load (snd entry) \<noteq> None) reg))"
    using assms(2) by auto
  then show ?thesis
    using count_list_filter_distinct [of "fixed_load_order @ other" t "has_initial_load reg"] assms
    by (simp add: spec_load_sequence_def count_list_0_iff del: set_append)
qed

lemma gnc_sql_load_initial:
  assumes "book b = None"
    and "\<forall>t\<in>set (fixed_load_order @ other). \<exists>entry\<in>set reg. fst entry = t"
  shows "\<exists>st. gnc_sql_load x reg other b bk LOAD_TYPE_INITIAL_LOAD = Inr st
            \<and> initial_loads (snd st) = spec_load_sequence reg other"
proof -
  let ?b = "b\<lparr>loading := True, book := Some bk\<rparr>"
  from assms(2) obtain st1 where 1: "load_in_order reg fixed_load_order (?b, []) = Inr st1"
    using load_in_order_total [of fixed_load_order reg "(?b, [])"] by auto
  from assms(2) obtain st2 where 2: "load_in_order reg other st1 = Inr st2"
    using load_in_order_total [of other reg st1] by auto
  have l1: "initial_loads (snd st1) = filter (has_initial_load reg) fixed_load_order"
    using load_in_order_loads [OF 1] by simp
  have l2: "initial_loads (snd st2) = filter (has_initial_load reg) (fixed_load_order @ other)"
    using load_in_order_loads [OF 2] l1 by simp
  obtain b2 tr2 where st2: "st2 = (b2, tr2)" by (cases st2)
  let ?st3 = "(account_begin_edit_descendants x b2, tr2 @ [Ev_AccountBeginEdit])"
  let ?st4 = "foldl (\<lambda>st entry. initial_load_entry other entry st) ?st3 reg"
  have l4: "initial_loads (snd ?st4) = spec_load_sequence reg other"
    using l2 st2 by (simp add: initial_load_loop_loads initial_loads_append spec_load_sequence_def)
  obtain b4 tr4 where st4: "?st4 = (b4, tr4)" by (cases ?st4)
  let ?b6 = "(account_commit_edit_descendants x b4)\<lparr>loading := False\<rparr>"
  let ?st7 = "foldl (commit_commodity x) (?b6, tr4 @ [Ev_AccountCommitEdit])
                (post_load_commodities ?b6)"
  have l7: "initial_loads (snd ?st7) = spec_load_sequence reg other"
    using l4 st4 by (simp add: commit_commodity_loads initial_loads_append)
  obtain b7 tr7 where st7: "?st7 = (b7, tr7)" by (cases ?st7)
  have "gnc_sql_load x reg other b bk LOAD_TYPE_INITIAL_LOAD
          = Inr (b7\<lparr>post_load_commodities := [],
                     book := qof_book_mark_session_saved (book b7)\<rparr>,
                 finish_progress (b7\<lparr>post_load_commodities := [],
                     book := qof_book_mark_session_saved (book b7)\<rparr>) tr7)"
    using assms(1) 1 2 st2 st4 st7
    by (simp add: gnc_sql_load_def Let_def)
  with l7 st7 show ?thesis
    by (simp add: initial_loads_finish_progress)
qed

text \<open>
  C4, as the code has it. In an initial load into a backend without a book, when every
  type of the two load-order lists is registered, the load returns, and the types whose
  \<open>initial_load\<close> it has called are, in this order: the types of the fixed list and
  then of the extension list whose first registered bundle has the callback, one call
  per occurrence in the lists; then the registered types of neither list, in registry
  order. A listed type with a callback is loaded exactly once when no type occurs twice
  in the two lists taken together.
\<close>

theorem gnc_sql_load_order:
  assumes "book b = None"
    and "set (fixed_load_order @ other_load_order) \<subseteq> fst ` set backend_registry"
  shows "\<exists>b' tr. gnc_sql_load x backend_registry other_load_order b bk LOAD_TYPE_INITIAL_LOAD
                    = Inr (b', tr)
           \<and> initial_loads tr = spec_load_sequence backend_registry other_load_order
           \<and> (distinct (fixed_load_order @ other_load_order) \<longrightarrow>
                (\<forall>t\<in>set (fixed_load_order @ other_load_order).
                    has_initial_load backend_registry t \<longrightarrow> count_list (initial_loads tr) t = 1))"
proof -
  from assms(2)
  have "\<forall>t\<in>set (fixed_load_order @ other_load_order). \<exists>entry\<in>set backend_registry. fst entry = t"
    by auto
  from gnc_sql_load_initial [OF assms(1) this] obtain st
    where "gnc_sql_load x backend_registry other_load_order b bk LOAD_TYPE_INITIAL_LOAD = Inr st"
      and "initial_loads (snd st) = spec_load_sequence backend_registry other_load_order"
    by blast
  then show ?thesis
    using spec_load_sequence_once [of other_load_order _ backend_registry]
    by (cases st) auto
qed


lemma core_registry_sequence:
  "spec_load_sequence core_registry [] = [''Book'', ''Commodity'', ''Account'', ''Lot'', ''Budget'']"
  by (simp add: spec_load_sequence_def has_initial_load_def core_registry_unfold
      fixed_load_order_unfold loader_def)

lemma core_registry_sequence_twice:
  "spec_load_sequence core_registry [GNC_ID_BOOK]
     = [''Book'', ''Commodity'', ''Account'', ''Lot'', ''Book'', ''Budget'']"
  by (simp add: spec_load_sequence_def has_initial_load_def core_registry_unfold
      fixed_load_order_unfold loader_def GNC_ID_BOOK_def)

theorem gnc_sql_load_order_witness:
  "book (plain_be\<lparr>book := None\<rparr>) = None
   \<and> set (fixed_load_order @ []) \<subseteq> fst ` set core_registry
   \<and> distinct (fixed_load_order @ [])
   \<and> GNC_ID_BOOK \<in> set (fixed_load_order @ [])
   \<and> has_initial_load core_registry GNC_ID_BOOK
   \<and> loads_of
       (gnc_sql_load plain_externals core_registry [] (plain_be\<lparr>book := None\<rparr>) dirty_book
          LOAD_TYPE_INITIAL_LOAD)
      = Inr [''Book'', ''Commodity'', ''Account'', ''Lot'', ''Budget'']
   \<and> count_list [''Book'', ''Commodity'', ''Account'', ''Lot'', ''Budget''] GNC_ID_BOOK = 1"
proof -
  have h: "book (plain_be\<lparr>book := None\<rparr>) = None"
    "set (fixed_load_order @ []) \<subseteq> fst ` set core_registry"
    by (simp_all add: core_registry_unfold fixed_load_order_unfold)
  have d: "distinct (fixed_load_order @ [])"
    by (simp add: fixed_load_order_unfold)
  from gnc_sql_load_order [OF h, of plain_externals dirty_book] obtain b' tr
    where "gnc_sql_load plain_externals core_registry [] (plain_be\<lparr>book := None\<rparr>) dirty_book
             LOAD_TYPE_INITIAL_LOAD = Inr (b', tr)"
      and "initial_loads tr = spec_load_sequence core_registry []"
    by blast
  moreover have "has_initial_load core_registry GNC_ID_BOOK"
    by (simp add: has_initial_load_def core_registry_unfold loader_def GNC_ID_BOOK_def)
  ultimately show ?thesis
    using h d
    by (simp add: core_registry_sequence loads_of_def)
       (simp add: fixed_load_order_unfold GNC_ID_BOOK_def)
qed

text \<open>
  The claim C4 as stated fails when a type occurs in both lists: with \<open>Book\<close> in the
  extension list too, its \<open>initial_load\<close> is called twice. A backend that has a book
  already fails the assertion at the head of the initial load, and nothing is loaded.
\<close>

theorem gnc_sql_load_order_counterexample:
  "GNC_ID_BOOK \<in> set fixed_load_order
   \<and> loads_of
       (gnc_sql_load plain_externals core_registry [GNC_ID_BOOK] (plain_be\<lparr>book := None\<rparr>)
          dirty_book LOAD_TYPE_INITIAL_LOAD)
      = Inr [''Book'', ''Commodity'', ''Account'', ''Lot'', ''Book'', ''Budget'']
   \<and> count_list [''Book'', ''Commodity'', ''Account'', ''Lot'', ''Book'', ''Budget''] GNC_ID_BOOK = 2
   \<and> gnc_sql_load plain_externals core_registry [] plain_be dirty_book LOAD_TYPE_INITIAL_LOAD
      = Inl Assertion_failed"
proof -
  have a: "gnc_sql_load plain_externals core_registry [] plain_be dirty_book
             LOAD_TYPE_INITIAL_LOAD = Inl Assertion_failed"
    by (simp add: gnc_sql_load_def plain_be_def Let_def)
  have h: "book (plain_be\<lparr>book := None\<rparr>) = None"
    "\<forall>t\<in>set (fixed_load_order @ [GNC_ID_BOOK]). \<exists>entry\<in>set core_registry. fst entry = t"
    by (simp_all add: core_registry_unfold fixed_load_order_unfold GNC_ID_BOOK_def)
  from gnc_sql_load_initial [OF h, of plain_externals dirty_book] obtain st
    where "gnc_sql_load plain_externals core_registry [GNC_ID_BOOK] (plain_be\<lparr>book := None\<rparr>)
             dirty_book LOAD_TYPE_INITIAL_LOAD = Inr st"
      and "initial_loads (snd st) = spec_load_sequence core_registry [GNC_ID_BOOK]"
    by blast
  then show ?thesis
    unfolding a
    by (simp add: core_registry_sequence_twice loads_of_def)
       (simp add: fixed_load_order_unfold GNC_ID_BOOK_def)
qed

end
